theory Spec2Isabelle
  imports Complex_Main
begin

section \<open>Python values\<close>

text \<open>
  The engine builds and reads JSON-like Python values. A dict is an association list in
  insertion order with string keys; a Python set is kept as the list of its members.
  Finite floats are carried as rationals (no arithmetic is done on them by the engine);
  NaN and the infinities are outside the model.
\<close>

datatype pyval =
    PNone
  | PBool bool
  | PInt int
  | PFloat rat
  | PStr string
  | PList "pyval list"
  | PDict "(string \<times> pyval) list"
  | PSet "pyval list"

text \<open>Python truthiness (\<open>if x:\<close>).\<close>

fun truthy :: "pyval \<Rightarrow> bool" where
  "truthy PNone = False"
| "truthy (PBool b) = b"
| "truthy (PInt i) = (i \<noteq> 0)"
| "truthy (PFloat r) = (r \<noteq> 0)"
| "truthy (PStr s) = (s \<noteq> [])"
| "truthy (PList xs) = (xs \<noteq> [])"
| "truthy (PDict kvs) = (kvs \<noteq> [])"
| "truthy (PSet xs) = (xs \<noteq> [])"

section \<open>Conversation data model\<close>

text \<open>
  Modelled from the spec: the classes \<open>Role\<close>, \<open>Type\<close>, \<open>Message\<close> and
  \<open>Conversation\<close> of \<open>oumi.core.types.conversation\<close> are imported by the engine and
  not part of the source at hand. The spec gives the roles system/user/assistant and the
  content types text, image-by-bytes and image-by-url; \<open>OTHER\<close> stands for any further
  content type (named by its value), which the engine treats as unsupported. A message
  has a role, a content type, an optional text content and an optional binary payload; a
  conversation has its messages, opaque metadata and an optional identifier.
\<close>

datatype Role = SYSTEM | USER | ASSISTANT

fun Role_value :: "Role \<Rightarrow> string" where
  "Role_value SYSTEM = ''system''"
| "Role_value USER = ''user''"
| "Role_value ASSISTANT = ''assistant''"

text \<open>\<open>Role(v)\<close>: the enum member with value \<open>v\<close>, if there is one.\<close>

definition Role_of :: "string \<Rightarrow> Role option" where
  "Role_of v =
     (if v = ''system'' then Some SYSTEM
      else if v = ''user'' then Some USER
      else if v = ''assistant'' then Some ASSISTANT
      else None)"

datatype Type = TEXT | IMAGE_BINARY | IMAGE_URL | OTHER string

fun Type_value :: "Type \<Rightarrow> string" where
  "Type_value TEXT = ''text''"
| "Type_value IMAGE_BINARY = ''image_binary''"
| "Type_value IMAGE_URL = ''image_url''"
| "Type_value (OTHER v) = v"

record Message =
  content :: "string option"
  binary :: "string option"
  role :: Role
  type :: Type

definition is_text :: "Message \<Rightarrow> bool" where
  "is_text m = (type m = TEXT)"

definition is_image :: "Message \<Rightarrow> bool" where
  "is_image m = (type m = IMAGE_BINARY \<or> type m = IMAGE_URL)"

record Conversation =
  messages :: "Message list"
  metadata :: pyval
  conversation_id :: "string option"

text \<open>\<open>x or ""\<close> for an optional string, and the truth value of an optional payload.\<close>

definition or_empty :: "string option \<Rightarrow> string" where
  "or_empty x = (case x of None \<Rightarrow> [] | Some s \<Rightarrow> s)"

definition truthy_opt :: "string option \<Rightarrow> bool" where
  "truthy_opt x = (case x of None \<Rightarrow> False | Some s \<Rightarrow> s \<noteq> [])"

definition py_opt_str :: "string option \<Rightarrow> pyval" where
  "py_opt_str x = (case x of None \<Rightarrow> PNone | Some s \<Rightarrow> PStr s)"

section \<open>Errors\<close>

text \<open>
  One constructor for each \<open>raise\<close> of the engine, and for the exceptions of the Python
  operations it uses (subscripting, enum lookup, JSON parsing, attribute access).
\<close>

datatype BatchStatus = VALIDATING | IN_PROGRESS | COMPLETED | FAILED | EXPIRED | CANCELLED

datatype error =
    UnsupportedMessageType Type
  | AssertionError
  | UnsupportedSchemaType
  | OnlyJsonSchemaSupported
  | RetriesExhausted nat
  | BatchNotCompleted BatchStatus
  | BatchHasFailedRequests string
  | NoOutputFile
  | BatchRequestFailed pyval
  | HttpFailed string string
  | KeyError string
  | IndexError
  | TypeError
  | AttributeError
  | InvalidEnumValue pyval
  | ValidationError
  | JSONDecodeError
  | ImageLoadError

section \<open>Collaborators\<close>

text \<open>
  The image helpers of \<open>oumi.utils.image_utils\<close> and the JSON parser are library code
  from outside the engine; the model takes them as parameters.
\<close>

record collaborators =
  load_image_bytes_to_message :: "Message \<Rightarrow> error + Message"
  base64encode_image_bytes :: "Message \<Rightarrow> string"
  json_loads :: "string \<Rightarrow> error + pyval"

section \<open>Message encoder\<close>

text \<open>
  \<open>_get_content_for_message\<close>: the content unit of one message. The dict returned
  for an image given by URL holds, under \<open>image_url\<close>, the Python set literal
  \<open>{message.content or ""}\<close>.
\<close>

definition get_content_for_message :: "collaborators \<Rightarrow> Message \<Rightarrow> error + pyval" where
  "get_content_for_message cs message =
     (if type message = TEXT then
        Inr (PDict [(''type'', PStr (Type_value TEXT)),
                    (''text'', PStr (or_empty (content message)))])
      else if \<not> is_image message then Inl (UnsupportedMessageType (type message))
      else
        (case (if \<not> truthy_opt (binary message) \<and> type message \<noteq> IMAGE_URL
               then load_image_bytes_to_message cs message
               else Inr message) of
           Inl e \<Rightarrow> Inl e
         | Inr message' \<Rightarrow>
             if truthy_opt (binary message') then
               Inr (PDict [(''type'', PStr (Type_value IMAGE_URL)),
                           (''image_url'',
                              PDict [(''url'', PStr (base64encode_image_bytes cs message'))])])
             else if type message' \<noteq> IMAGE_URL then Inl AssertionError
             else
               Inr (PDict [(''type'', PStr (Type_value IMAGE_URL)),
                           (''image_url'', PSet [PStr (or_empty (content message'))])])))"

text \<open>
  A list comprehension or loop over fallible steps: the first exception ends it.
\<close>

fun mapM :: "('a \<Rightarrow> error + 'b) \<Rightarrow> 'a list \<Rightarrow> error + 'b list" where
  "mapM f [] = Inr []"
| "mapM f (x # xs) =
     (case f x of
        Inl e \<Rightarrow> Inl e
      | Inr y \<Rightarrow> (case mapM f xs of Inl e \<Rightarrow> Inl e | Inr ys \<Rightarrow> Inr (y # ys)))"

text \<open>
  \<open>_get_list_of_message_json_dicts\<close>. The inner loop
  \<open>while end_idx < num_messages and messages[idx].role == messages[end_idx].role\<close>:
\<close>

function scan_end :: "Message list \<Rightarrow> nat \<Rightarrow> nat \<Rightarrow> nat" where
  "scan_end msgs idx end_idx =
     (if end_idx < length msgs \<and> role (msgs ! idx) = role (msgs ! end_idx)
      then scan_end msgs idx (Suc end_idx)
      else end_idx)"
  by pat_completeness auto
termination
  by (relation "measure (\<lambda>(msgs, idx, end_idx). length msgs - end_idx)") auto

declare scan_end.simps [simp del]

text \<open>The loop \<open>while idx < end_idx\<close> that fills \<open>content_list\<close>:\<close>

function content_list_loop ::
  "collaborators \<Rightarrow> Message list \<Rightarrow> nat \<Rightarrow> nat \<Rightarrow> pyval list \<Rightarrow> error + pyval list" where
  "content_list_loop cs msgs idx end_idx content_list =
     (if idx < end_idx then
        (case get_content_for_message cs (msgs ! idx) of
           Inl e \<Rightarrow> Inl e
         | Inr c \<Rightarrow> content_list_loop cs msgs (Suc idx) end_idx (content_list @ [c]))
      else Inr content_list)"
  by pat_completeness auto
termination
  by (relation "measure (\<lambda>(cs, msgs, idx, end_idx, content_list). end_idx - idx)") auto

declare content_list_loop.simps [simp del]

lemma scan_end_ge: "end_idx \<le> scan_end msgs idx end_idx"
proof (induction msgs idx end_idx rule: scan_end.induct)
  case (1 msgs idx end_idx)
  show ?case
  proof (cases "end_idx < length msgs \<and> role (msgs ! idx) = role (msgs ! end_idx)")
    case True
    with "1.IH" have "Suc end_idx \<le> scan_end msgs idx (Suc end_idx)" by blast
    with True show ?thesis by (subst scan_end.simps) simp
  next
    case False
    then show ?thesis by (subst scan_end.simps) auto
  qed
qed

text \<open>The outer loop \<open>while idx < num_messages\<close>, with \<open>result\<close> as accumulator:\<close>

function message_dicts_loop ::
  "collaborators \<Rightarrow> Message list \<Rightarrow> bool \<Rightarrow> nat \<Rightarrow> pyval list \<Rightarrow> error + pyval list" where
  "message_dicts_loop cs msgs group_adjacent_same_role_turns idx result =
     (if idx < length msgs then
        (let end_idx = (if group_adjacent_same_role_turns
                        then scan_end msgs idx (Suc idx) else Suc idx);
             group_size = end_idx - idx
         in case (if group_size = 1 \<and> is_text (msgs ! idx)
                  then Inr (py_opt_str (content (msgs ! idx)))
                  else (case content_list_loop cs msgs idx end_idx [] of
                          Inl e \<Rightarrow> Inl e
                        | Inr content_list \<Rightarrow> Inr (PList content_list))) of
              Inl e \<Rightarrow> Inl e
            | Inr c \<Rightarrow>
                message_dicts_loop cs msgs group_adjacent_same_role_turns end_idx
                  (result @ [PDict [(''role'', PStr (Role_value (role (msgs ! idx)))),
                                    (''content'', c)]]))
      else Inr result)"
  by pat_completeness auto
termination
proof (relation "measure (\<lambda>(cs, msgs, g, idx, result). length msgs - idx)", goal_cases)
  case 1
  show ?case by simp
next
  case (2 cs msgs g idx result end_idx group_size c)
  have "Suc idx \<le> scan_end msgs idx (Suc idx)" by (rule scan_end_ge)
  with 2 show ?case by (auto split: if_splits)
qed

declare message_dicts_loop.simps [simp del]

definition get_list_of_message_json_dicts ::
  "collaborators \<Rightarrow> Message list \<Rightarrow> bool \<Rightarrow> error + pyval list" where
  "get_list_of_message_json_dicts cs msgs group_adjacent_same_role_turns =
     message_dicts_loop cs msgs group_adjacent_same_role_turns 0 []"

text \<open>
  The grouping as the spec words it, to compare the loop with: the maximal runs of
  adjacent messages of one role, and the wire turn of a run (a bare string for a run of
  one plain-text message, the list of the members' content units otherwise).
\<close>

function runs_by_role :: "Message list \<Rightarrow> Message list list" where
  "runs_by_role [] = []"
| "runs_by_role (m # ms) =
     (m # takeWhile (\<lambda>x. role x = role m) ms)
       # runs_by_role (dropWhile (\<lambda>x. role x = role m) ms)"
  by pat_completeness auto
termination
  by (relation "measure length") (auto simp: length_dropWhile_le less_Suc_eq_le)

definition turn_of_run :: "collaborators \<Rightarrow> Message list \<Rightarrow> error + pyval" where
  "turn_of_run cs run =
     (case (case run of
              [m] \<Rightarrow> if is_text m then Inr (py_opt_str (content m))
                     else (case mapM (get_content_for_message cs) run of
                             Inl e \<Rightarrow> Inl e | Inr units \<Rightarrow> Inr (PList units))
            | _ \<Rightarrow> (case mapM (get_content_for_message cs) run of
                      Inl e \<Rightarrow> Inl e | Inr units \<Rightarrow> Inr (PList units))) of
        Inl e \<Rightarrow> Inl e
      | Inr c \<Rightarrow> Inr (PDict [(''role'', PStr (Role_value (role (hd run)))), (''content'', c)]))"

text \<open>
  \<open>_convert_conversation_to_api_input\<close>.

  Modelled from the spec: \<open>GenerationParams\<close> and its \<open>guided_decoding\<close> are
  configuration classes from outside the source at hand; the fields are the ones the
  engine reads. A schema is either a class with a JSON-schema export (its \<open>__name__\<close>
  and its \<open>model_json_schema()\<close>) or any other Python value.
\<close>

datatype schema_arg = SchemaClass string pyval | SchemaValue pyval

record GuidedDecodingParams =
  json :: schema_arg

record GenerationParams =
  max_new_tokens :: int
  temperature :: rat
  top_p :: rat
  frequency_penalty :: rat
  presence_penalty :: rat
  seed :: "int option"
  logit_bias :: pyval
  stop_strings :: "string list option"
  guided_decoding :: "GuidedDecodingParams option"

text \<open>\<open>d[k] = v\<close> on a dict: the value of an existing key is replaced, a new key is appended.\<close>

fun dict_set :: "(string \<times> pyval) list \<Rightarrow> string \<Rightarrow> pyval \<Rightarrow> (string \<times> pyval) list" where
  "dict_set [] k v = [(k, v)]"
| "dict_set ((k', v') # kvs) k v =
     (if k' = k then (k, v) # kvs else (k', v') # dict_set kvs k v)"

definition py_opt_int :: "int option \<Rightarrow> pyval" where
  "py_opt_int x = (case x of None \<Rightarrow> PNone | Some i \<Rightarrow> PInt i)"

text \<open>The wire turn of one message in the request body (no grouping).\<close>

definition message_turn :: "collaborators \<Rightarrow> Message \<Rightarrow> error + pyval" where
  "message_turn cs message =
     (case get_content_for_message cs message of
        Inl e \<Rightarrow> Inl e
      | Inr c \<Rightarrow> Inr (PDict [(''content'', PList [c]),
                             (''role'', PStr (Role_value (role message)))]))"

text \<open>The \<open>isinstance\<close> chain that yields \<open>schema_name\<close> and \<open>schema_value\<close>.\<close>

fun resolve_json_schema :: "collaborators \<Rightarrow> schema_arg \<Rightarrow> error + string \<times> pyval" where
  "resolve_json_schema cs (SchemaClass name schema) = Inr (name, schema)"
| "resolve_json_schema cs (SchemaValue (PDict kvs)) = Inr (''Response'', PDict kvs)"
| "resolve_json_schema cs (SchemaValue (PStr s)) =
     (case json_loads cs s of Inl e \<Rightarrow> Inl e | Inr v \<Rightarrow> Inr (''Response'', v))"
| "resolve_json_schema cs (SchemaValue v) = Inl UnsupportedSchemaType"

definition response_format :: "string \<Rightarrow> pyval \<Rightarrow> pyval" where
  "response_format schema_name schema_value =
     PDict [(''type'', PStr ''json_schema''),
            (''json_schema'', PDict [(''name'', PStr schema_name),
                                     (''schema'', schema_value)])]"

definition convert_conversation_to_api_input ::
  "collaborators \<Rightarrow> string \<Rightarrow> Conversation \<Rightarrow> GenerationParams \<Rightarrow> error + pyval" where
  "convert_conversation_to_api_input cs model conversation generation_params =
     (case mapM (message_turn cs) (messages conversation) of
        Inl e \<Rightarrow> Inl e
      | Inr turns \<Rightarrow>
          (let api_input =
                 [(''model'', PStr model),
                  (''messages'', PList turns),
                  (''max_completion_tokens'', PInt (max_new_tokens generation_params)),
                  (''temperature'', PFloat (temperature generation_params)),
                  (''top_p'', PFloat (top_p generation_params)),
                  (''frequency_penalty'', PFloat (frequency_penalty generation_params)),
                  (''presence_penalty'', PFloat (presence_penalty generation_params)),
                  (''n'', PInt 1),
                  (''seed'', py_opt_int (seed generation_params)),
                  (''logit_bias'', logit_bias generation_params)];
               api_input =
                 (case stop_strings generation_params of
                    None \<Rightarrow> api_input
                  | Some ss \<Rightarrow> if ss = [] then api_input
                              else dict_set api_input ''stop'' (PList (map PStr ss)))
           in case guided_decoding generation_params of
                None \<Rightarrow> Inr (PDict api_input)
              | Some gd \<Rightarrow>
                  if json gd = SchemaValue PNone then Inl OnlyJsonSchemaSupported
                  else (case resolve_json_schema cs (json gd) of
                          Inl e \<Rightarrow> Inl e
                        | Inr (schema_name, schema_value) \<Rightarrow>
                            Inr (PDict (dict_set api_input ''response_format''
                                          (response_format schema_name schema_value))))))"

text \<open>
  Python subscripting \<open>x[k]\<close> with a string key, \<open>x[0]\<close>, and \<open>x.get(k)\<close>, with the
  exceptions they raise.
\<close>

definition py_getitem :: "pyval \<Rightarrow> string \<Rightarrow> error + pyval" where
  "py_getitem x k =
     (case x of
        PDict kvs \<Rightarrow> (case map_of kvs k of None \<Rightarrow> Inl (KeyError k) | Some v \<Rightarrow> Inr v)
      | _ \<Rightarrow> Inl TypeError)"

definition py_getitem0 :: "pyval \<Rightarrow> error + pyval" where
  "py_getitem0 x =
     (case x of
        PList xs \<Rightarrow> (case xs of [] \<Rightarrow> Inl IndexError | y # _ \<Rightarrow> Inr y)
      | PStr s \<Rightarrow> (case s of [] \<Rightarrow> Inl IndexError | c # _ \<Rightarrow> Inr (PStr [c]))
      | PDict kvs \<Rightarrow> Inl (KeyError ''0'')
      | _ \<Rightarrow> Inl TypeError)"

definition py_get :: "pyval \<Rightarrow> string \<Rightarrow> error + pyval" where
  "py_get x k =
     (case x of
        PDict kvs \<Rightarrow> Inr (case map_of kvs k of None \<Rightarrow> PNone | Some v \<Rightarrow> v)
      | _ \<Rightarrow> Inl AttributeError)"

text \<open>
  Modelled from the spec: the constructors \<open>Role(v)\<close> and \<open>Message(content=..., ...)\<close>
  of the absent conversation classes. A role is looked up by its value; a message
  content is an optional string.
\<close>

definition Role_ctor :: "pyval \<Rightarrow> error + Role" where
  "Role_ctor v =
     (case v of
        PStr s \<Rightarrow> (case Role_of s of None \<Rightarrow> Inl (InvalidEnumValue v) | Some r \<Rightarrow> Inr r)
      | _ \<Rightarrow> Inl (InvalidEnumValue v))"

definition Message_ctor :: "pyval \<Rightarrow> Role \<Rightarrow> Type \<Rightarrow> error + Message" where
  "Message_ctor c r t =
     (case c of
        PStr s \<Rightarrow> Inr \<lparr>content = Some s, binary = None, role = r, type = t\<rparr>
      | PNone \<Rightarrow> Inr \<lparr>content = None, binary = None, role = r, type = t\<rparr>
      | _ \<Rightarrow> Inl ValidationError)"

text \<open>\<open>_convert_api_output_to_conversation\<close>.\<close>

definition convert_api_output_to_conversation ::
  "pyval \<Rightarrow> Conversation \<Rightarrow> error + Conversation" where
  "convert_api_output_to_conversation response original_conversation =
     (case py_getitem response ''choices'' of Inl e \<Rightarrow> Inl e | Inr choices \<Rightarrow>
      case py_getitem0 choices of Inl e \<Rightarrow> Inl e | Inr choice \<Rightarrow>
      case py_getitem choice ''message'' of Inl e \<Rightarrow> Inl e | Inr message \<Rightarrow>
      case py_getitem message ''content'' of Inl e \<Rightarrow> Inl e | Inr c \<Rightarrow>
      case py_getitem message ''role'' of Inl e \<Rightarrow> Inl e | Inr r \<Rightarrow>
      case Role_ctor r of Inl e \<Rightarrow> Inl e | Inr r' \<Rightarrow>
      case Message_ctor c r' TEXT of Inl e \<Rightarrow> Inl e | Inr m \<Rightarrow>
        Inr \<lparr>messages = messages original_conversation @ [m],
             metadata = metadata original_conversation,
             conversation_id = conversation_id original_conversation\<rparr>)"

section \<open>Remote endpoint\<close>

text \<open>
  Modelled from the spec: \<open>RemoteParams\<close> and \<open>InferenceConfig\<close> are configuration
  classes from outside the source at hand (base URL, credential as a literal or the name
  of an environment variable, worker limit, connection timeout, retry count, politeness
  interval, completion window).
\<close>

record RemoteParams =
  api_url :: "string option"
  api_key :: "string option"
  api_key_env_varname :: "string option"
  num_workers :: nat
  max_retries :: nat
  connection_timeout :: rat
  politeness_policy :: rat
  completion_window :: string

record InferenceConfig =
  generation :: GenerationParams
  remote_params :: "RemoteParams option"
  output_path :: "string option"

text \<open>
  The HTTP transport is outside the engine. A response has a status, a body text and
  the outcome of \<open>response.json()\<close>, which raises on a body that is not JSON. Every
  effect of the engine is an event of a trace; the server answers a request as a function
  of the trace so far, so that it may answer a repeated request differently.
\<close>

record http_response =
  status_code :: nat
  body_text :: string
  json_body :: "error + pyval"

datatype request =
    Post string "(string \<times> string) list" pyval
  | Get string "(string \<times> string) list"

datatype event =
    Sent request
  | Printed pyval
  | Slept rat
  | SavedScratch Conversation string

record world =
  environ :: "string \<Rightarrow> string option"
  server :: "event list \<Rightarrow> request \<Rightarrow> http_response"

text \<open>\<open>str(x)\<close> of an optional string, as an f-string formats it.\<close>

definition str_opt :: "string option \<Rightarrow> string" where
  "str_opt x = (case x of None \<Rightarrow> ''None'' | Some s \<Rightarrow> s)"

text \<open>\<open>_get_api_key\<close> and \<open>_get_request_headers\<close>.\<close>

definition get_api_key :: "world \<Rightarrow> RemoteParams \<Rightarrow> string option" where
  "get_api_key w rp =
     (if truthy_opt (api_key rp) then api_key rp
      else if truthy_opt (api_key_env_varname rp)
      then environ w (or_empty (api_key_env_varname rp))
      else None)"

definition get_request_headers :: "world \<Rightarrow> RemoteParams option \<Rightarrow> (string \<times> string) list" where
  "get_request_headers w rp =
     (case rp of
        None \<Rightarrow> []
      | Some p \<Rightarrow> [(''Authorization'', ''Bearer '' @ str_opt (get_api_key w p))])"

section \<open>Online dispatch\<close>

text \<open>
  \<open>session.post(url, json=api_input, ...)\<close> serialises the body with \<open>json.dumps\<close>
  before anything goes out: a Python set anywhere in the body raises \<open>TypeError\<close>, and
  no request is sent.
\<close>

fun json_serializable :: "pyval \<Rightarrow> bool" where
  "json_serializable (PSet xs) = False"
| "json_serializable (PList xs) = list_all json_serializable xs"
| "json_serializable (PDict kvs) = list_all json_serializable (map snd kvs)"
| "json_serializable v = True"

fun request_serializable :: "request \<Rightarrow> bool" where
  "request_serializable (Post url headers body) = json_serializable body"
| "request_serializable (Get url headers) = True"

text \<open>
  The body of \<open>for _ in range(remote_params.max_retries + 1)\<close> in \<open>_query_api\<close>, by
  the number of iterations left. The JSON body is read before the status is looked at.
  \<open>_save_conversation\<close> and \<open>_get_scratch_filepath\<close> belong to the absent base class;
  the write is recorded as an event with the configured output path.
\<close>

fun query_api_loop ::
  "world \<Rightarrow> RemoteParams \<Rightarrow> InferenceConfig \<Rightarrow> Conversation \<Rightarrow> request \<Rightarrow> nat
     \<Rightarrow> event list \<Rightarrow> (error + Conversation) \<times> event list" where
  "query_api_loop w rp cfg conversation req 0 tr = (Inl (RetriesExhausted (max_retries rp)), tr)"
| "query_api_loop w rp cfg conversation req (Suc k) tr =
     (if \<not> request_serializable req then (Inl TypeError, tr)
      else
        (let response = server w tr req;
             tr = tr @ [Sent req]
         in case json_body response of
              Inl e \<Rightarrow> (Inl e, tr)
            | Inr response_json \<Rightarrow>
                if status_code response = 200 then
                  (case convert_api_output_to_conversation response_json conversation of
                     Inl e \<Rightarrow> (Inl e, tr)
                   | Inr result \<Rightarrow>
                       (Inr result,
                        (if truthy_opt (output_path cfg)
                         then tr @ [SavedScratch result (or_empty (output_path cfg))]
                         else tr) @ [Slept (politeness_policy rp)]))
                else
                  query_api_loop w rp cfg conversation req k
                    (tr @ [Printed response_json, Slept (politeness_policy rp)])))"

text \<open>\<open>_query_api\<close> for one conversation, once the semaphore admits it.\<close>

definition query_api ::
  "collaborators \<Rightarrow> string \<Rightarrow> world \<Rightarrow> Conversation \<Rightarrow> InferenceConfig \<Rightarrow> RemoteParams
     \<Rightarrow> event list \<Rightarrow> (error + Conversation) \<times> event list" where
  "query_api cs model w conversation cfg rp tr =
     (if \<not> truthy_opt (api_url rp) then (Inl AssertionError, tr)
      else
        (case convert_conversation_to_api_input cs model conversation (generation cfg) of
           Inl e \<Rightarrow> (Inl e, tr)
         | Inr api_input \<Rightarrow>
             query_api_loop w rp cfg conversation
               (Post (or_empty (api_url rp)) (get_request_headers w (remote_params cfg)) api_input)
               (max_retries rp + 1) tr))"





section \<open>Batch jobs\<close>

text \<open>Decimal digits of a natural number, as \<open>f"request-{i}"\<close> formats the index.\<close>

fun str_of_nat :: "nat \<Rightarrow> string" where
  "str_of_nat n =
     (if n < 10 then [''0123456789'' ! n]
      else str_of_nat (n div 10) @ [''0123456789'' ! (n mod 10)])"

declare str_of_nat.simps [simp del]

definition BATCH_ENDPOINT :: string where
  "BATCH_ENDPOINT = ''/v1/chat/completions''"

text \<open>
  The loop \<open>for i, conv in enumerate(conversations)\<close> of \<open>_create_batch\<close>, which
  prepares \<open>batch_requests\<close>; \<open>i\<close> is the index of the first conversation left.
\<close>

fun batch_requests_from ::
  "collaborators \<Rightarrow> string \<Rightarrow> GenerationParams \<Rightarrow> nat \<Rightarrow> Conversation list
     \<Rightarrow> error + pyval list" where
  "batch_requests_from cs model gp i [] = Inr []"
| "batch_requests_from cs model gp i (conv # convs) =
     (case convert_conversation_to_api_input cs model conv gp of
        Inl e \<Rightarrow> Inl e
      | Inr api_input \<Rightarrow>
          (case batch_requests_from cs model gp (Suc i) convs of
             Inl e \<Rightarrow> Inl e
           | Inr reqs \<Rightarrow>
               Inr (PDict [(''custom_id'', PStr (''request-'' @ str_of_nat i)),
                           (''method'', PStr ''POST''),
                           (''url'', PStr BATCH_ENDPOINT),
                           (''body'', api_input)] # reqs)))"

definition create_batch_requests ::
  "collaborators \<Rightarrow> string \<Rightarrow> Conversation list \<Rightarrow> InferenceConfig \<Rightarrow> error + pyval list" where
  "create_batch_requests cs model conversations cfg =
     batch_requests_from cs model (generation cfg) 0 conversations"

text \<open>
  \<open>BatchStatusResponse\<close>, with the field types the dataclass declares, and
  \<open>BatchStatus(v)\<close>, the enum member with value \<open>v\<close>.
\<close>

record BatchStatusResponse =
  batch_id :: string
  status :: BatchStatus
  total_requests :: int
  completed_requests :: int
  failed_requests :: int
  error :: "string option"
  output_file_id :: "string option"
  error_file_id :: "string option"

definition BatchStatus_ctor :: "pyval \<Rightarrow> error + BatchStatus" where
  "BatchStatus_ctor v =
     (if v = PStr ''validating'' then Inr VALIDATING
      else if v = PStr ''in_progress'' then Inr IN_PROGRESS
      else if v = PStr ''completed'' then Inr COMPLETED
      else if v = PStr ''failed'' then Inr FAILED
      else if v = PStr ''expired'' then Inr EXPIRED
      else if v = PStr ''cancelled'' then Inr CANCELLED
      else Inl (InvalidEnumValue v))"

text \<open>
  The status payload is stored into the dataclass as it comes. The model keeps the
  declared field types: a count that is not an integer, or a reference that is neither a
  string nor null, is outside the model and is reported as \<open>ValidationError\<close>.
\<close>

definition as_int :: "pyval \<Rightarrow> error + int" where
  "as_int v = (case v of PInt i \<Rightarrow> Inr i | _ \<Rightarrow> Inl ValidationError)"

definition as_opt_str :: "pyval \<Rightarrow> error + string option" where
  "as_opt_str v =
     (case v of PNone \<Rightarrow> Inr None | PStr s \<Rightarrow> Inr (Some s) | _ \<Rightarrow> Inl ValidationError)"

definition request_count :: "pyval \<Rightarrow> string \<Rightarrow> error + int" where
  "request_count data k =
     (case py_getitem data ''request_counts'' of Inl e \<Rightarrow> Inl e | Inr counts \<Rightarrow>
      case py_getitem counts k of Inl e \<Rightarrow> Inl e | Inr v \<Rightarrow> as_int v)"

definition optional_field :: "pyval \<Rightarrow> string \<Rightarrow> error + string option" where
  "optional_field data k =
     (case py_get data k of Inl e \<Rightarrow> Inl e | Inr v \<Rightarrow> as_opt_str v)"

definition batch_status_of_payload :: "string \<Rightarrow> pyval \<Rightarrow> error + BatchStatusResponse" where
  "batch_status_of_payload bid data =
     (case py_getitem data ''status'' of Inl e \<Rightarrow> Inl e | Inr sv \<Rightarrow>
      case BatchStatus_ctor sv of Inl e \<Rightarrow> Inl e | Inr st \<Rightarrow>
      case request_count data ''total'' of Inl e \<Rightarrow> Inl e | Inr n_total \<Rightarrow>
      case request_count data ''completed'' of Inl e \<Rightarrow> Inl e | Inr n_completed \<Rightarrow>
      case request_count data ''failed'' of Inl e \<Rightarrow> Inl e | Inr n_failed \<Rightarrow>
      case optional_field data ''error'' of Inl e \<Rightarrow> Inl e | Inr err \<Rightarrow>
      case optional_field data ''output_file_id'' of Inl e \<Rightarrow> Inl e | Inr out \<Rightarrow>
      case optional_field data ''error_file_id'' of Inl e \<Rightarrow> Inl e | Inr errf \<Rightarrow>
        Inr \<lparr>batch_id = bid, status = st, total_requests = n_total,
             completed_requests = n_completed, failed_requests = n_failed,
             error = err, output_file_id = out, error_file_id = errf\<rparr>)"

text \<open>\<open>_get_batch_status\<close>.\<close>

definition get_batch_status ::
  "world \<Rightarrow> string \<Rightarrow> RemoteParams \<Rightarrow> event list
     \<Rightarrow> (error + BatchStatusResponse) \<times> event list" where
  "get_batch_status w bid rp tr =
     (let req = Get (str_opt (api_url rp) @ ''/batches/'' @ bid) (get_request_headers w (Some rp));
          response = server w tr req;
          tr = tr @ [Sent req]
      in if status_code response \<noteq> 200
         then (Inl (HttpFailed ''Failed to get batch status: '' (body_text response)), tr)
         else (case json_body response of
                 Inl e \<Rightarrow> (Inl e, tr)
               | Inr data \<Rightarrow> (batch_status_of_payload bid data, tr)))"

text \<open>\<open>_download_file\<close>.\<close>

definition download_file ::
  "world \<Rightarrow> string \<Rightarrow> RemoteParams \<Rightarrow> event list \<Rightarrow> (error + string) \<times> event list" where
  "download_file w file_id rp tr =
     (let req = Get (str_opt (api_url rp) @ ''/files/'' @ file_id @ ''/content'')
                    (get_request_headers w (Some rp));
          response = server w tr req;
          tr = tr @ [Sent req]
      in if status_code response \<noteq> 200
         then (Inl (HttpFailed ''Failed to download file: '' (body_text response)), tr)
         else (Inr (body_text response), tr))"

text \<open>
  \<open>str.splitlines()\<close>: a line ends at LF, CR, CR LF, VT, FF, FS, GS, RS or NEL, and a
  final line end opens no further line. (The separators U+2028 and U+2029 lie beyond the
  8-bit characters of the model.)
\<close>

definition is_line_boundary :: "char \<Rightarrow> bool" where
  "is_line_boundary c =
     (c = CHR 0x0A \<or> c = CHR 0x0B \<or> c = CHR 0x0C \<or> c = CHR 0x0D \<or>
      c = CHR 0x1C \<or> c = CHR 0x1D \<or> c = CHR 0x1E \<or> c = CHR 0x85)"

fun splitlines_from :: "string \<Rightarrow> string \<Rightarrow> string list" where
  "splitlines_from cur [] = (if cur = [] then [] else [cur])"
| "splitlines_from cur [c] =
     (if is_line_boundary c then [cur] else [cur @ [c]])"
| "splitlines_from cur (c # d # ds) =
     (if c = CHR 0x0D \<and> d = CHR 0x0A then cur # splitlines_from [] ds
      else if is_line_boundary c then cur # splitlines_from [] (d # ds)
      else splitlines_from (cur @ [c]) (d # ds))"

definition splitlines :: "string \<Rightarrow> string list" where
  "splitlines s = splitlines_from [] s"

text \<open>The body of the loop over \<open>zip(results_content.splitlines(), conversations)\<close>.\<close>

definition process_result_line ::
  "collaborators \<Rightarrow> string \<times> Conversation \<Rightarrow> error + Conversation" where
  "process_result_line cs lc =
     (case json_loads cs (fst lc) of Inl e \<Rightarrow> Inl e | Inr result \<Rightarrow>
      case py_get result ''error'' of Inl e \<Rightarrow> Inl e | Inr err \<Rightarrow>
        if truthy err then Inl (BatchRequestFailed err)
        else
          (case py_getitem result ''response'' of Inl e \<Rightarrow> Inl e | Inr resp \<Rightarrow>
           case py_getitem resp ''body'' of Inl e \<Rightarrow> Inl e | Inr body \<Rightarrow>
             convert_api_output_to_conversation body (snd lc)))"

text \<open>\<open>_get_batch_results_with_mapping\<close>.\<close>

definition get_batch_results_with_mapping ::
  "collaborators \<Rightarrow> world \<Rightarrow> string \<Rightarrow> Conversation list \<Rightarrow> RemoteParams \<Rightarrow> event list
     \<Rightarrow> (error + Conversation list) \<times> event list" where
  "get_batch_results_with_mapping cs w bid conversations rp tr =
     (case get_batch_status w bid rp tr of
        (Inl e, tr) \<Rightarrow> (Inl e, tr)
      | (Inr st, tr) \<Rightarrow>
          if status st \<noteq> COMPLETED then (Inl (BatchNotCompleted (status st)), tr)
          else if failed_requests st > 0 \<and> truthy_opt (error_file_id st) then
            (case download_file w (or_empty (error_file_id st)) rp tr of
               (Inl e, tr) \<Rightarrow> (Inl e, tr)
             | (Inr error_content, tr) \<Rightarrow> (Inl (BatchHasFailedRequests error_content), tr))
          else if \<not> truthy_opt (output_file_id st) then (Inl NoOutputFile, tr)
          else
            (case download_file w (or_empty (output_file_id st)) rp tr of
               (Inl e, tr) \<Rightarrow> (Inl e, tr)
             | (Inr results_content, tr) \<Rightarrow>
                 (mapM (process_result_line cs)
                    (zip (splitlines results_content) conversations), tr)))"

section \<open>Sample inputs\<close>

text \<open>
  Concrete collaborators, configurations and servers, on which the theorems below are
  instantiated. The sample parser knows three result lines and one schema string.
\<close>

definition text_message :: "Role \<Rightarrow> string \<Rightarrow> Message" where
  "text_message r s = \<lparr>content = Some s, binary = None, role = r, type = TEXT\<rparr>"

definition completion :: "string \<Rightarrow> string \<Rightarrow> pyval" where
  "completion r c =
     PDict [(''choices'',
             PList [PDict [(''message'', PDict [(''role'', PStr r), (''content'', PStr c)])]])]"

definition result_line :: "pyval \<Rightarrow> pyval" where
  "result_line body =
     PDict [(''response'', PDict [(''status_code'', PInt 200), (''body'', body)])]"

definition sample_loads :: "string \<Rightarrow> error + pyval" where
  "sample_loads s =
     (if s = ''line0'' then Inr (result_line (completion ''assistant'' ''zero''))
      else if s = ''line1'' then Inr (result_line (completion ''assistant'' ''one''))
      else if s = ''line2'' then Inr (result_line (completion ''assistant'' ''two''))
      else if s = ''schema'' then Inr (PDict [(''type'', PStr ''object'')])
      else Inl JSONDecodeError)"

definition stub_collaborators :: collaborators where
  "stub_collaborators =
     \<lparr>load_image_bytes_to_message = (\<lambda>m. Inl ImageLoadError),
      base64encode_image_bytes = (\<lambda>m. ''data:image/png;base64,'' @ or_empty (binary m)),
      json_loads = sample_loads\<rparr>"

definition sample_conversation :: "string \<Rightarrow> Conversation" where
  "sample_conversation q =
     \<lparr>messages = [text_message USER q], metadata = PNone, conversation_id = Some q\<rparr>"

definition sample_generation :: GenerationParams where
  "sample_generation =
     \<lparr>max_new_tokens = 16, temperature = 0, top_p = 1, frequency_penalty = 0,
      presence_penalty = 0, seed = None, logit_bias = PDict [], stop_strings = None,
      guided_decoding = None\<rparr>"

definition sample_remote :: RemoteParams where
  "sample_remote =
     \<lparr>api_url = Some ''http://api'', api_key = Some ''k'', api_key_env_varname = None,
      num_workers = 2, max_retries = 1, connection_timeout = 20, politeness_policy = 0,
      completion_window = ''24h''\<rparr>"

definition sample_config :: InferenceConfig where
  "sample_config =
     \<lparr>generation = sample_generation, remote_params = Some sample_remote,
      output_path = None\<rparr>"

definition status_payload :: "string \<Rightarrow> int \<Rightarrow> string option \<Rightarrow> string option \<Rightarrow> pyval" where
  "status_payload st n_failed out errf =
     PDict [(''status'', PStr st),
            (''request_counts'',
               PDict [(''total'', PInt 3), (''completed'', PInt (3 - n_failed)),
                      (''failed'', PInt n_failed)]),
            (''output_file_id'', py_opt_str out),
            (''error_file_id'', py_opt_str errf)]"

text \<open>
  A server that answers the status request of batch \<open>b1\<close> with the given payload, every
  other GET with the given file content, and every POST with status 500 and the given
  outcome of reading the body as JSON.
\<close>

definition sample_server ::
  "pyval \<Rightarrow> string \<Rightarrow> error + pyval \<Rightarrow> event list \<Rightarrow> request \<Rightarrow> http_response" where
  "sample_server payload file_content post_json tr req =
     (case req of
        Get url hs \<Rightarrow>
          if url = ''http://api/batches/b1''
          then \<lparr>status_code = 200, body_text = [], json_body = Inr payload\<rparr>
          else \<lparr>status_code = 200, body_text = file_content, json_body = Inl JSONDecodeError\<rparr>
      | Post url hs body \<Rightarrow>
          \<lparr>status_code = 500, body_text = ''Internal Server Error'', json_body = post_json\<rparr>)"

definition sample_world :: "pyval \<Rightarrow> string \<Rightarrow> error + pyval \<Rightarrow> world" where
  "sample_world payload file_content post_json =
     \<lparr>environ = (\<lambda>v. None), server = sample_server payload file_content post_json\<rparr>"

definition guided :: "schema_arg \<Rightarrow> GenerationParams" where
  "guided js = sample_generation\<lparr>guided_decoding := Some \<lparr>json = js\<rparr>\<rparr>"

definition sample_body :: "string \<Rightarrow> pyval" where
  "sample_body q =
     PDict [(''model'', PStr ''m''),
            (''messages'',
               PList [PDict [(''content'', PList [PDict [(''type'', PStr ''text''), (''text'', PStr q)]]),
                             (''role'', PStr ''user'')]]),
            (''max_completion_tokens'', PInt 16),
            (''temperature'', PFloat 0),
            (''top_p'', PFloat 1),
            (''frequency_penalty'', PFloat 0),
            (''presence_penalty'', PFloat 0),
            (''n'', PInt 1),
            (''seed'', PNone),
            (''logit_bias'', PDict [])]"


definition two_user_messages :: Conversation where
  "two_user_messages =
     \<lparr>messages = [text_message USER ''a'', text_message USER ''b''], metadata = PNone,
      conversation_id = None\<rparr>"

definition two_user_body :: pyval where
  "two_user_body =
     PDict [(''model'', PStr ''m''),
            (''messages'',
               PList [PDict [(''content'', PList [PDict [(''type'', PStr ''text''), (''text'', PStr ''a'')]]),
                             (''role'', PStr ''user'')],
                      PDict [(''content'', PList [PDict [(''type'', PStr ''text''), (''text'', PStr ''b'')]]),
                             (''role'', PStr ''user'')]]),
            (''max_completion_tokens'', PInt 16),
            (''temperature'', PFloat 0),
            (''top_p'', PFloat 1),
            (''frequency_penalty'', PFloat 0),
            (''presence_penalty'', PFloat 0),
            (''n'', PInt 1),
            (''seed'', PNone),
            (''logit_bias'', PDict [])]"

definition batch_request :: "string \<Rightarrow> pyval \<Rightarrow> pyval" where
  "batch_request custom_id body =
     PDict [(''custom_id'', PStr custom_id), (''method'', PStr ''POST''),
            (''url'', PStr ''/v1/chat/completions''), (''body'', body)]"

definition answered :: "string \<Rightarrow> string \<Rightarrow> Conversation" where
  "answered q a =
     \<lparr>messages = [text_message USER q, text_message ASSISTANT a], metadata = PNone,
      conversation_id = Some q\<rparr>"

definition three_lines :: string where
  "three_lines = ''line0'' @ [CHR 0x0A] @ ''line1'' @ [CHR 0x0A] @ ''line2'' @ [CHR 0x0A]"


definition sample_headers_list :: "(string \<times> string) list" where
  "sample_headers_list = [(''Authorization'', ''Bearer k'')]"

definition status_request :: event where
  "status_request = Sent (Get ''http://api/batches/b1'' sample_headers_list)"

definition file_request :: "string \<Rightarrow> event" where
  "file_request fid = Sent (Get (''http://api/files/'' @ fid @ ''/content'') sample_headers_list)"

text \<open>
  A server that answers every request with status 500 and, as JSON body, the number of
  events before the request.
\<close>

definition failing_world :: world where
  "failing_world =
     \<lparr>environ = (\<lambda>v. None),
      server = (\<lambda>tr req. \<lparr>status_code = 500, body_text = ''Internal Server Error'',
                                json_body = Inr (PInt (int (length tr)))\<rparr>)\<rparr>"

section \<open>Content units\<close>

text \<open>
  C6, at an image given by URL with no binary payload: the content unit produced has no
  \<open>url\<close> key. Under \<open>image_url\<close> it holds a set whose only member is the URL, where
  the branch for a binary payload holds a dict from \<open>url\<close> to the data URI.
\<close>

theorem get_content_for_message_image_url_is_set:
  "get_content_for_message cs
     \<lparr>content = Some ''http://host/cat.png'', binary = None, role = USER, type = IMAGE_URL\<rparr>
   = Inr (PDict [(''type'', PStr ''image_url''),
                 (''image_url'', PSet [PStr ''http://host/cat.png''])])"
  by (simp add: get_content_for_message_def is_image_def truthy_opt_def or_empty_def)

section \<open>Grouped encoding\<close>

lemma scan_end_takeWhile:
  "end_idx \<le> length msgs \<Longrightarrow>
   scan_end msgs idx end_idx
     = end_idx + length (takeWhile (\<lambda>x. role x = role (msgs ! idx)) (drop end_idx msgs))"
proof (induction msgs idx end_idx rule: scan_end.induct)
  case (1 msgs idx end_idx)
  show ?case
  proof (cases "end_idx < length msgs")
    case False
    with "1.prems" show ?thesis by (subst scan_end.simps) simp
  next
    case lt: True
    then have d: "drop end_idx msgs = msgs ! end_idx # drop (Suc end_idx) msgs"
      by (simp add: Cons_nth_drop_Suc)
    show ?thesis
    proof (cases "role (msgs ! idx) = role (msgs ! end_idx)")
      case True
      with lt "1.IH" have "scan_end msgs idx (Suc end_idx)
          = Suc end_idx + length (takeWhile (\<lambda>x. role x = role (msgs ! idx)) (drop (Suc end_idx) msgs))"
        by simp
      with lt True d show ?thesis by (subst scan_end.simps) simp
    next
      case False
      with lt d show ?thesis by (subst scan_end.simps) auto
    qed
  qed
qed

lemma content_list_loop_mapM:
  "end_idx \<le> length msgs \<Longrightarrow>
   content_list_loop cs msgs idx end_idx acc
     = (case mapM (get_content_for_message cs) (take (end_idx - idx) (drop idx msgs)) of
          Inl e \<Rightarrow> Inl e | Inr ys \<Rightarrow> Inr (acc @ ys))"
proof (induction cs msgs idx end_idx acc rule: content_list_loop.induct)
  case (1 cs msgs idx end_idx acc)
  show ?case
  proof (cases "idx < end_idx")
    case False
    then show ?thesis by (subst content_list_loop.simps) simp
  next
    case True
    with "1.prems" have lt: "idx < length msgs" by simp
    then have d: "drop idx msgs = msgs ! idx # drop (Suc idx) msgs"
      by (simp add: Cons_nth_drop_Suc)
    from True obtain k where k: "end_idx - idx = Suc k" "end_idx - Suc idx = k"
      by (cases "end_idx - idx") auto
    show ?thesis
    proof (cases "get_content_for_message cs (msgs ! idx)")
      case (Inl e)
      with True d k show ?thesis by (subst content_list_loop.simps) simp
    next
      case (Inr c)
      with True "1.IH" "1.prems" have "content_list_loop cs msgs (Suc idx) end_idx (acc @ [c])
         = (case mapM (get_content_for_message cs) (take (end_idx - Suc idx) (drop (Suc idx) msgs)) of
          Inl e \<Rightarrow> Inl e | Inr ys \<Rightarrow> Inr ((acc @ [c]) @ ys))" by simp
      with True d k Inr show ?thesis
        by (subst content_list_loop.simps) (simp split: sum.splits)
    qed
  qed
qed


lemma turn_of_run_Cons:
  "turn_of_run cs (m # tw)
     = (case (if tw = [] \<and> is_text m then Inr (py_opt_str (content m))
              else (case mapM (get_content_for_message cs) (m # tw) of
                      Inl e \<Rightarrow> Inl e | Inr units \<Rightarrow> Inr (PList units))) of
          Inl e \<Rightarrow> Inl e
        | Inr c \<Rightarrow> Inr (PDict [(''role'', PStr (Role_value (role m))), (''content'', c)]))"
  by (cases tw) (simp_all add: turn_of_run_def split: sum.splits)

lemma message_dicts_loop_runs:
  "idx \<le> length msgs \<Longrightarrow>
   message_dicts_loop cs msgs True idx result
     = (case mapM (turn_of_run cs) (runs_by_role (drop idx msgs)) of
          Inl e \<Rightarrow> Inl e | Inr ts \<Rightarrow> Inr (result @ ts))"
proof (induction cs msgs "True" idx result rule: message_dicts_loop.induct)
  case (1 cs msgs idx result)
  show ?case
  proof (cases "idx < length msgs")
    case False
    with "1.prems" show ?thesis by (subst message_dicts_loop.simps) simp
  next
    case lt: True
    define m where "m = msgs ! idx"
    define rest where "rest = drop (Suc idx) msgs"
    define tw where "tw = takeWhile (\<lambda>x. role x = role m) rest"
    define e where "e = scan_end msgs idx (Suc idx)"
    define cv where "cv = (if tw = [] \<and> is_text m then Inr (py_opt_str (content m))
              else (case mapM (get_content_for_message cs) (m # tw) of
                      Inl e \<Rightarrow> Inl e | Inr units \<Rightarrow> Inr (PList units)))"
    from lt have d: "drop idx msgs = m # rest"
      by (simp add: m_def rest_def Cons_nth_drop_Suc)
    from lt have e: "e = Suc idx + length tw"
      unfolding e_def tw_def rest_def m_def by (simp add: scan_end_takeWhile)
    have "length tw \<le> length rest" unfolding tw_def by (rule length_takeWhile_le)
    with lt have e_le: "e \<le> length msgs" by (simp add: e rest_def)
    have de: "drop e msgs = dropWhile (\<lambda>x. role x = role m) rest"
      by (simp add: e rest_def tw_def dropWhile_eq_drop add.commute)
    have tk: "take (e - idx) (drop idx msgs) = m # tw"
      using takeWhile_eq_take [of "\<lambda>x. role x = role m" rest]
      by (simp add: e d tw_def)
    have gs: "(e - idx = 1) = (tw = [])" by (simp add: e)
    have cl: "content_list_loop cs msgs idx e []
        = (case mapM (get_content_for_message cs) (m # tw) of
             Inl e \<Rightarrow> Inl e | Inr ys \<Rightarrow> Inr ys)"
      using e_le by (simp add: content_list_loop_mapM tk split: sum.splits)
    have cv_eq: "(if e - idx = 1 \<and> is_text (msgs ! idx)
                  then Inr (py_opt_str (content (msgs ! idx)))
                  else (case content_list_loop cs msgs idx e [] of
                          Inl e \<Rightarrow> Inl e
                        | Inr content_list \<Rightarrow> Inr (PList content_list))) = cv"
      unfolding cv_def gs cl m_def [symmetric] by (simp split: sum.splits)
    have rn: "runs_by_role (drop idx msgs) = (m # tw) # runs_by_role (drop e msgs)"
      by (simp add: d de tw_def)
    have tr: "turn_of_run cs (m # tw)
        = (case cv of Inl e \<Rightarrow> Inl e
           | Inr c \<Rightarrow> Inr (PDict [(''role'', PStr (Role_value (role m))), (''content'', c)]))"
      unfolding cv_def by (rule turn_of_run_Cons)
    have unf: "message_dicts_loop cs msgs True idx result
        = (case cv of Inl e \<Rightarrow> Inl e
           | Inr c \<Rightarrow> message_dicts_loop cs msgs True e
               (result @ [PDict [(''role'', PStr (Role_value (role m))), (''content'', c)]]))"
      using lt cv_eq
      by (subst message_dicts_loop.simps) (simp add: Let_def e_def [symmetric] m_def [symmetric] cong: sum.case_cong)
    show ?thesis
    proof (cases cv)
      case (Inl err)
      then show ?thesis by (simp add: unf rn tr)
    next
      case (Inr c)
      define t where "t = PDict [(''role'', PStr (Role_value (role m))), (''content'', c)]"
      have ih: "message_dicts_loop cs msgs True e (result @ [t])
          = (case mapM (turn_of_run cs) (runs_by_role (drop e msgs)) of
               Inl e \<Rightarrow> Inl e
             | Inr ts \<Rightarrow> Inr ((result @ [t]) @ ts))"
        unfolding t_def m_def
        using lt e_le Inr cv_eq
        by (intro "1.hyps" [where x = e and xa = "e - idx" and b = c]) (simp_all add: e_def)
      from Inr have t: "turn_of_run cs (m # tw) = Inr t" by (simp add: tr t_def)
      from Inr have "message_dicts_loop cs msgs True idx result
          = message_dicts_loop cs msgs True e (result @ [t])"
        by (simp add: unf t_def)
      with ih t show ?thesis
        by (simp add: rn split: sum.splits)
    qed
  qed
qed

lemma concat_runs_by_role: "concat (runs_by_role msgs) = msgs"
  by (induction msgs rule: runs_by_role.induct) simp_all

lemma runs_by_role_same_role:
  "run \<in> set (runs_by_role msgs) \<Longrightarrow> run \<noteq> [] \<and> (\<forall>m \<in> set run. role m = role (hd run))"
proof (induction msgs rule: runs_by_role.induct)
  case 1
  then show ?case by simp
next
  case (2 m ms)
  let ?P = "\<lambda>x. role x = role m"
  from "2.prems" consider "run = m # takeWhile ?P ms" | "run \<in> set (runs_by_role (dropWhile ?P ms))"
    by (simp only: runs_by_role.simps set_simps insert_iff) blast
  then show ?case
  proof cases
    case 1
    have tw: "\<And>x. x \<in> set (takeWhile ?P ms) \<Longrightarrow> role x = role m"
      using set_takeWhileD [of _ ?P ms] by blast
    from 1 have ne: "run \<noteq> []" and h: "hd run = m"
      and s: "set run = insert m (set (takeWhile ?P ms))"
      by simp_all
    show ?thesis
    proof (intro conjI ballI)
      show "run \<noteq> []" by (rule ne)
    next
      fix x assume "x \<in> set run"
      with s have "x = m \<or> x \<in> set (takeWhile ?P ms)" by blast
      then have "role x = role m" using tw by blast
      then show "role x = role (hd run)" by (simp only: h)
    qed
  next
    case 2
    then show ?thesis by (rule "2.IH")
  qed
qed

lemma hd_runs_by_role: "msgs \<noteq> [] \<Longrightarrow> hd (hd (runs_by_role msgs)) = hd msgs"
  by (cases msgs) simp_all

lemma runs_by_role_Nil: "(runs_by_role msgs = []) = (msgs = [])"
  by (cases msgs) simp_all

lemma runs_by_role_maximal:
  "distinct_adj (map (\<lambda>run. role (hd run)) (runs_by_role msgs))"
proof (induction msgs rule: runs_by_role.induct)
  case 1
  show ?case by simp
next
  case (2 m ms)
  let ?dw = "dropWhile (\<lambda>x. role x = role m) ms"
  show ?case
  proof (cases "?dw = []")
    case True
    then have "runs_by_role ?dw = []" by (simp only: runs_by_role.simps)
    then show ?thesis by (simp only: runs_by_role.simps list.map distinct_adj_singleton)
  next
    case False
    then have "role (hd ?dw) \<noteq> role m" using hd_dropWhile [of "\<lambda>x. role x = role m" ms] by simp
    moreover from False have "hd (hd (runs_by_role ?dw)) = hd ?dw" by (rule hd_runs_by_role)
    moreover from False have "runs_by_role ?dw \<noteq> []" by (simp add: runs_by_role_Nil)
    ultimately show ?thesis using "2.IH"
      by (cases "runs_by_role ?dw") (auto simp: distinct_adj_Cons)
  qed
qed

text \<open>
  C5. For every message list, grouped encoding produces one wire turn for each maximal
  run of adjacent same-role messages, in order: the runs concatenate to the message list,
  the members of a run share its role, and neighbouring runs differ in role. The turn
  of a run of exactly one plain-text message carries the content as a bare string, the
  turn of any other run the list of its members' content units (\<open>turn_of_run\<close>); an
  error from a content unit ends the encoding. Three text messages with roles user,
  user, assistant give exactly two turns.
\<close>

theorem grouped_encoding_merges_maximal_runs:
  "get_list_of_message_json_dicts cs msgs True = mapM (turn_of_run cs) (runs_by_role msgs)
   \<and> concat (runs_by_role msgs) = msgs
   \<and> (\<forall>run \<in> set (runs_by_role msgs). run \<noteq> [] \<and> (\<forall>m \<in> set run. role m = role (hd run)))
   \<and> distinct_adj (map (\<lambda>run. role (hd run)) (runs_by_role msgs))"
proof (intro conjI ballI)
  show "get_list_of_message_json_dicts cs msgs True = mapM (turn_of_run cs) (runs_by_role msgs)"
    by (simp add: get_list_of_message_json_dicts_def message_dicts_loop_runs split: sum.splits)
  show "concat (runs_by_role msgs) = msgs" by (rule concat_runs_by_role)
  show "distinct_adj (map (\<lambda>run. role (hd run)) (runs_by_role msgs))"
    by (rule runs_by_role_maximal)
next
  fix run assume "run \<in> set (runs_by_role msgs)"
  then show "run \<noteq> []" by (simp add: runs_by_role_same_role)
next
  fix run m assume "run \<in> set (runs_by_role msgs)" "m \<in> set run"
  then show "role m = role (hd run)" using runs_by_role_same_role by blast
qed

theorem grouped_encoding_user_user_assistant:
  "get_list_of_message_json_dicts stub_collaborators
     [text_message USER ''a'', text_message USER ''b'', text_message ASSISTANT ''c''] True
   = Inr [PDict [(''role'', PStr ''user''),
                 (''content'', PList [PDict [(''type'', PStr ''text''), (''text'', PStr ''a'')],
                                      PDict [(''type'', PStr ''text''), (''text'', PStr ''b'')]])],
          PDict [(''role'', PStr ''assistant''), (''content'', PStr ''c'')]]"
  using grouped_encoding_merges_maximal_runs
    [of stub_collaborators
        "[text_message USER ''a'', text_message USER ''b'', text_message ASSISTANT ''c'']",
     THEN conjunct1]
  by (simp add: turn_of_run_def get_content_for_message_def stub_collaborators_def text_message_def is_text_def
        or_empty_def py_opt_str_def)

section \<open>Structured output\<close>

lemma py_getitem_dict_set:
  "py_getitem (PDict (dict_set kvs k v)) k = Inr v"
  by (induction kvs k v rule: dict_set.induct) (simp_all add: py_getitem_def)

lemma sample_turns:
  "mapM (message_turn stub_collaborators) (messages (sample_conversation ''q''))
     = Inr [PDict [(''content'', PList [PDict [(''type'', PStr ''text''), (''text'', PStr ''q'')]]),
                   (''role'', PStr ''user'')]]"
  by (simp add: sample_conversation_def text_message_def message_turn_def
        get_content_for_message_def or_empty_def)

text \<open>
  C7. When the messages of the conversation encode and a structured-output request is
  present: a schema class yields the response format \<open>{type: json_schema, json_schema:
  {name: <its name>, schema: <its exported schema>}}\<close>; a mapping yields the name
  \<open>Response\<close> with the mapping as schema; a string that parses as JSON yields the name
  \<open>Response\<close> with the parsed value as schema; any other value that is not null raises
  an error; and a request without a schema raises an error.
\<close>

theorem structured_output_resolution:
  "mapM (message_turn cs) (messages conv) = Inr turns \<and> guided_decoding gp = Some gd \<longrightarrow>
     (\<forall>name schema. json gd = SchemaClass name schema \<longrightarrow>
        (\<exists>body. convert_conversation_to_api_input cs model conv gp = Inr body
           \<and> py_getitem body ''response_format''
               = Inr (PDict [(''type'', PStr ''json_schema''),
                             (''json_schema'', PDict [(''name'', PStr name), (''schema'', schema)])])))
   \<and> (\<forall>kvs. json gd = SchemaValue (PDict kvs) \<longrightarrow>
        (\<exists>body. convert_conversation_to_api_input cs model conv gp = Inr body
           \<and> py_getitem body ''response_format''
               = Inr (PDict [(''type'', PStr ''json_schema''),
                             (''json_schema'', PDict [(''name'', PStr ''Response''),
                                                      (''schema'', PDict kvs)])])))
   \<and> (\<forall>s v. json gd = SchemaValue (PStr s) \<and> json_loads cs s = Inr v \<longrightarrow>
        (\<exists>body. convert_conversation_to_api_input cs model conv gp = Inr body
           \<and> py_getitem body ''response_format''
               = Inr (PDict [(''type'', PStr ''json_schema''),
                             (''json_schema'', PDict [(''name'', PStr ''Response''),
                                                      (''schema'', v)])])))
   \<and> (\<forall>v. json gd = SchemaValue v \<and> v \<noteq> PNone \<and> (\<forall>kvs. v \<noteq> PDict kvs) \<and> (\<forall>s. v \<noteq> PStr s) \<longrightarrow>
        convert_conversation_to_api_input cs model conv gp = Inl UnsupportedSchemaType)
   \<and> (json gd = SchemaValue PNone \<longrightarrow>
        convert_conversation_to_api_input cs model conv gp = Inl OnlyJsonSchemaSupported)"
proof (intro impI conjI allI; elim conjE)
  fix name schema
  assume "mapM (message_turn cs) (messages conv) = Inr turns" "guided_decoding gp = Some gd"
    "json gd = SchemaClass name schema"
  then show "\<exists>body. convert_conversation_to_api_input cs model conv gp = Inr body
           \<and> py_getitem body ''response_format''
               = Inr (PDict [(''type'', PStr ''json_schema''),
                             (''json_schema'', PDict [(''name'', PStr name), (''schema'', schema)])])"
    by (simp add: convert_conversation_to_api_input_def Let_def response_format_def
          py_getitem_dict_set)
next
  fix kvs
  assume "mapM (message_turn cs) (messages conv) = Inr turns" "guided_decoding gp = Some gd"
    "json gd = SchemaValue (PDict kvs)"
  then show "\<exists>body. convert_conversation_to_api_input cs model conv gp = Inr body
           \<and> py_getitem body ''response_format''
               = Inr (PDict [(''type'', PStr ''json_schema''),
                             (''json_schema'', PDict [(''name'', PStr ''Response''),
                                                      (''schema'', PDict kvs)])])"
    by (simp add: convert_conversation_to_api_input_def Let_def response_format_def
          py_getitem_dict_set)
next
  fix s v
  assume "mapM (message_turn cs) (messages conv) = Inr turns" "guided_decoding gp = Some gd"
    "json gd = SchemaValue (PStr s)" "json_loads cs s = Inr v"
  then show "\<exists>body. convert_conversation_to_api_input cs model conv gp = Inr body
           \<and> py_getitem body ''response_format''
               = Inr (PDict [(''type'', PStr ''json_schema''),
                             (''json_schema'', PDict [(''name'', PStr ''Response''),
                                                      (''schema'', v)])])"
    by (simp add: convert_conversation_to_api_input_def Let_def response_format_def
          py_getitem_dict_set)
next
  fix v
  assume a: "mapM (message_turn cs) (messages conv) = Inr turns" "guided_decoding gp = Some gd"
    "json gd = SchemaValue v" "v \<noteq> PNone" "\<forall>kvs. v \<noteq> PDict kvs" "\<forall>s. v \<noteq> PStr s"
  then have "resolve_json_schema cs (SchemaValue v) = Inl UnsupportedSchemaType"
    by (cases v) simp_all
  with a show "convert_conversation_to_api_input cs model conv gp = Inl UnsupportedSchemaType"
    by (simp add: convert_conversation_to_api_input_def Let_def)
next
  assume "mapM (message_turn cs) (messages conv) = Inr turns" "guided_decoding gp = Some gd"
    "json gd = SchemaValue PNone"
  then show "convert_conversation_to_api_input cs model conv gp = Inl OnlyJsonSchemaSupported"
    by (simp add: convert_conversation_to_api_input_def Let_def)
qed

theorem structured_output_resolution_witness:
  "(\<exists>body. convert_conversation_to_api_input stub_collaborators ''m'' (sample_conversation ''q'')
             (guided (SchemaClass ''Answer'' (PDict [(''title'', PStr ''Answer'')]))) = Inr body
        \<and> py_getitem body ''response_format''
            = Inr (PDict [(''type'', PStr ''json_schema''),
                          (''json_schema'', PDict [(''name'', PStr ''Answer''),
                             (''schema'', PDict [(''title'', PStr ''Answer'')])])]))
   \<and> (\<exists>body. convert_conversation_to_api_input stub_collaborators ''m'' (sample_conversation ''q'')
             (guided (SchemaValue (PDict [(''type'', PStr ''object'')]))) = Inr body
        \<and> py_getitem body ''response_format''
            = Inr (PDict [(''type'', PStr ''json_schema''),
                          (''json_schema'', PDict [(''name'', PStr ''Response''),
                             (''schema'', PDict [(''type'', PStr ''object'')])])]))
   \<and> (\<exists>body. convert_conversation_to_api_input stub_collaborators ''m'' (sample_conversation ''q'')
             (guided (SchemaValue (PStr ''schema''))) = Inr body
        \<and> py_getitem body ''response_format''
            = Inr (PDict [(''type'', PStr ''json_schema''),
                          (''json_schema'', PDict [(''name'', PStr ''Response''),
                             (''schema'', PDict [(''type'', PStr ''object'')])])]))
   \<and> convert_conversation_to_api_input stub_collaborators ''m'' (sample_conversation ''q'')
        (guided (SchemaValue (PInt 7))) = Inl UnsupportedSchemaType
   \<and> convert_conversation_to_api_input stub_collaborators ''m'' (sample_conversation ''q'')
        (guided (SchemaValue PNone)) = Inl OnlyJsonSchemaSupported"
proof -
  note t = sample_turns
  have g: "\<And>js. guided_decoding (guided js) = Some \<lparr>json = js\<rparr>"
    by (simp add: guided_def)
  have l: "json_loads stub_collaborators ''schema'' = Inr (PDict [(''type'', PStr ''object'')])"
    by (simp add: stub_collaborators_def sample_loads_def)
  show ?thesis
    using structured_output_resolution
            [of stub_collaborators "sample_conversation ''q''" _
                "guided (SchemaClass ''Answer'' (PDict [(''title'', PStr ''Answer'')]))"
                "\<lparr>json = SchemaClass ''Answer'' (PDict [(''title'', PStr ''Answer'')])\<rparr>" "''m''"]
          structured_output_resolution
            [of stub_collaborators "sample_conversation ''q''" _
                "guided (SchemaValue (PDict [(''type'', PStr ''object'')]))"
                "\<lparr>json = SchemaValue (PDict [(''type'', PStr ''object'')])\<rparr>" "''m''"]
          structured_output_resolution
            [of stub_collaborators "sample_conversation ''q''" _
                "guided (SchemaValue (PStr ''schema''))"
                "\<lparr>json = SchemaValue (PStr ''schema'')\<rparr>" "''m''"]
          structured_output_resolution
            [of stub_collaborators "sample_conversation ''q''" _
                "guided (SchemaValue (PInt 7))" "\<lparr>json = SchemaValue (PInt 7)\<rparr>" "''m''"]
          structured_output_resolution
            [of stub_collaborators "sample_conversation ''q''" _
                "guided (SchemaValue PNone)" "\<lparr>json = SchemaValue PNone\<rparr>" "''m''"]
    by (simp add: t g l)
qed

section \<open>Decoding a response\<close>

text \<open>
  C8. For every conversation and every response whose first completion message has
  role \<open>r\<close> and content \<open>c\<close>, decoding returns the original conversation with exactly
  one message appended, of type text, role \<open>r\<close> and content \<open>c\<close>; the original
  messages, the metadata and the identifier are unchanged. A response whose list of
  completions is empty, or that has none, is a decode error.
\<close>

theorem decode_appends_first_completion:
  "(py_getitem response ''choices'' = Inr choices \<and> py_getitem0 choices = Inr choice
      \<and> py_getitem choice ''message'' = Inr message
      \<and> py_getitem message ''role'' = Inr (PStr (Role_value r))
      \<and> py_getitem message ''content'' = Inr (PStr c) \<longrightarrow>
      convert_api_output_to_conversation response conv
        = Inr (conv\<lparr>messages := messages conv
                       @ [\<lparr>content = Some c, binary = None, role = r, type = TEXT\<rparr>]\<rparr>))
   \<and> (py_getitem response ''choices'' = Inr (PList []) \<longrightarrow>
        convert_api_output_to_conversation response conv = Inl IndexError)
   \<and> (py_getitem response ''choices'' = Inl e \<longrightarrow>
        convert_api_output_to_conversation response conv = Inl e)"
proof (intro conjI impI; (elim conjE)?)
  assume "py_getitem response ''choices'' = Inr choices" "py_getitem0 choices = Inr choice"
    "py_getitem choice ''message'' = Inr message"
    "py_getitem message ''role'' = Inr (PStr (Role_value r))"
    "py_getitem message ''content'' = Inr (PStr c)"
  moreover have "Role_of (Role_value r) = Some r" by (cases r) (simp_all add: Role_of_def)
  ultimately show "convert_api_output_to_conversation response conv
        = Inr (conv\<lparr>messages := messages conv
                       @ [\<lparr>content = Some c, binary = None, role = r, type = TEXT\<rparr>]\<rparr>)"
    by (simp add: convert_api_output_to_conversation_def Role_ctor_def Message_ctor_def)
next
  assume "py_getitem response ''choices'' = Inr (PList [])"
  then show "convert_api_output_to_conversation response conv = Inl IndexError"
    by (simp add: convert_api_output_to_conversation_def py_getitem0_def)
next
  assume "py_getitem response ''choices'' = Inl e"
  then show "convert_api_output_to_conversation response conv = Inl e"
    by (simp add: convert_api_output_to_conversation_def)
qed

theorem decode_appends_first_completion_witness:
  "convert_api_output_to_conversation (completion ''assistant'' ''hi'') (sample_conversation ''q'')
     = Inr \<lparr>messages = [text_message USER ''q'', text_message ASSISTANT ''hi''],
            metadata = PNone, conversation_id = Some ''q''\<rparr>
   \<and> convert_api_output_to_conversation (PDict [(''choices'', PList [])]) (sample_conversation ''q'')
     = Inl IndexError
   \<and> convert_api_output_to_conversation (PDict [(''id'', PStr ''x'')]) (sample_conversation ''q'')
     = Inl (KeyError ''choices'')"
  using decode_appends_first_completion
          [of "completion ''assistant'' ''hi''"
              "PList [PDict [(''message'', PDict [(''role'', PStr ''assistant''), (''content'', PStr ''hi'')])]]"
              "PDict [(''message'', PDict [(''role'', PStr ''assistant''), (''content'', PStr ''hi'')])]"
              "PDict [(''role'', PStr ''assistant''), (''content'', PStr ''hi'')]"
              ASSISTANT "''hi''" "sample_conversation ''q''"]
        decode_appends_first_completion
          [of "PDict [(''choices'', PList [])]" _ _ _ _ _ "sample_conversation ''q''"]
        decode_appends_first_completion
          [of "PDict [(''id'', PStr ''x'')]" _ _ _ _ _ "sample_conversation ''q''" "KeyError ''choices''"]
  by (simp add: completion_def py_getitem_def py_getitem0_def sample_conversation_def text_message_def)

section \<open>Retries of the online path\<close>

lemma sample_encodes:
  "convert_conversation_to_api_input stub_collaborators ''m'' (sample_conversation q)
     sample_generation = Inr (sample_body q)"
  by (simp add: convert_conversation_to_api_input_def sample_conversation_def text_message_def
        message_turn_def get_content_for_message_def or_empty_def sample_generation_def
        sample_body_def py_opt_int_def)

lemma sample_headers:
  "get_request_headers w (Some sample_remote) = [(''Authorization'', ''Bearer k'')]"
  by (simp add: get_request_headers_def get_api_key_def sample_remote_def truthy_opt_def
        str_opt_def)



text \<open>
  A conversation with an image given by URL encodes to a body that holds a set, so the
  first call of \<open>session.post\<close> raises and nothing is sent.
\<close>

lemma query_api_image_url_not_sent:
  "query_api stub_collaborators ''m'' failing_world
     \<lparr>messages = [\<lparr>content = Some ''http://host/cat.png'', binary = None, role = USER,
                    type = IMAGE_URL\<rparr>],
      metadata = PNone, conversation_id = None\<rparr>
     sample_config sample_remote []
   = (Inl TypeError, [])"
  by (simp add: query_api_def convert_conversation_to_api_input_def message_turn_def
        get_content_for_message_def is_image_def truthy_opt_def or_empty_def sample_config_def
        sample_generation_def sample_remote_def py_opt_int_def)






section \<open>Batch requests\<close>

lemma mapM_Inr_nth:
  "mapM f xs = Inr ys \<Longrightarrow> length ys = length xs \<and> (\<forall>i<length xs. f (xs ! i) = Inr (ys ! i))"
proof (induction xs arbitrary: ys)
  case Nil
  then show ?case by simp
next
  case (Cons x xs)
  from Cons.prems obtain y ys' where y: "f x = Inr y" and ys': "mapM f xs = Inr ys'"
    and ys: "ys = y # ys'"
    by (auto split: sum.splits)
  from Cons.IH [OF ys'] have len: "length ys' = length xs"
    and nth: "\<And>i. i < length xs \<Longrightarrow> f (xs ! i) = Inr (ys' ! i)" by simp_all
  show ?case
  proof (intro conjI allI impI)
    show "length ys = length (x # xs)" using len ys by simp
  next
    fix i assume "i < length (x # xs)"
    then show "f ((x # xs) ! i) = Inr (ys ! i)"
      using y nth ys by (cases i) simp_all
  qed
qed

lemma map_of_dict_set:
  "map_of (dict_set kvs k v) k' = (if k' = k then Some v else map_of kvs k')"
  by (induction kvs k v rule: dict_set.induct) auto

lemma api_input_messages:
  assumes "convert_conversation_to_api_input cs model conv gp = Inr body"
  shows "\<exists>turns. mapM (message_turn cs) (messages conv) = Inr turns
           \<and> py_getitem body ''messages'' = Inr (PList turns)"
proof -
  from assms obtain turns where t: "mapM (message_turn cs) (messages conv) = Inr turns"
    by (auto simp: convert_conversation_to_api_input_def split: sum.splits)
  with assms have "py_getitem body ''messages'' = Inr (PList turns)"
    by (auto simp: convert_conversation_to_api_input_def Let_def py_getitem_def map_of_dict_set
          split: option.splits if_splits sum.splits prod.splits)
  with t show ?thesis by blast
qed

lemma message_turn_Inr:
  "message_turn cs m = Inr t \<Longrightarrow>
     \<exists>c. get_content_for_message cs m = Inr c
        \<and> t = PDict [(''content'', PList [c]), (''role'', PStr (Role_value (role m)))]"
  by (auto simp: message_turn_def split: sum.splits)

lemma batch_requests_from_nth:
  "batch_requests_from cs model gp k convs = Inr reqs \<Longrightarrow>
     length reqs = length convs \<and>
     (\<forall>i<length convs. \<exists>body.
         convert_conversation_to_api_input cs model (convs ! i) gp = Inr body
       \<and> reqs ! i = PDict [(''custom_id'', PStr (''request-'' @ str_of_nat (k + i))),
                           (''method'', PStr ''POST''),
                           (''url'', PStr ''/v1/chat/completions''),
                           (''body'', body)])"
proof (induction convs arbitrary: k reqs)
  case Nil
  then show ?case by simp
next
  case (Cons conv convs)
  from Cons.prems obtain body rest where
    b: "convert_conversation_to_api_input cs model conv gp = Inr body"
    and r: "batch_requests_from cs model gp (Suc k) convs = Inr rest"
    and reqs: "reqs = PDict [(''custom_id'', PStr (''request-'' @ str_of_nat k)),
                           (''method'', PStr ''POST''),
                           (''url'', PStr ''/v1/chat/completions''),
                           (''body'', body)] # rest"
    by (auto simp: BATCH_ENDPOINT_def split: sum.splits)
  from Cons.IH [OF r] have len: "length rest = length convs"
    and nth: "\<And>i. i < length convs \<Longrightarrow> \<exists>body.
         convert_conversation_to_api_input cs model (convs ! i) gp = Inr body
       \<and> rest ! i = PDict [(''custom_id'', PStr (''request-'' @ str_of_nat (Suc k + i))),
                           (''method'', PStr ''POST''),
                           (''url'', PStr ''/v1/chat/completions''),
                           (''body'', body)]" by simp_all
  show ?case
  proof (intro conjI allI impI)
    show "length reqs = length (conv # convs)" using len reqs by simp
  next
    fix i assume i: "i < length (conv # convs)"
    show "\<exists>body.
         convert_conversation_to_api_input cs model ((conv # convs) ! i) gp = Inr body
       \<and> reqs ! i = PDict [(''custom_id'', PStr (''request-'' @ str_of_nat (k + i))),
                           (''method'', PStr ''POST''),
                           (''url'', PStr ''/v1/chat/completions''),
                           (''body'', body)]"
    proof (cases i)
      case 0
      with b reqs show ?thesis by simp
    next
      case (Suc j)
      with i have "j < length convs" by simp
      from nth [OF this] Suc reqs show ?thesis by simp
    qed
  qed
qed

lemma two_user_encodes:
  "convert_conversation_to_api_input stub_collaborators ''m'' two_user_messages
     sample_generation = Inr two_user_body"
  by (simp add: convert_conversation_to_api_input_def two_user_messages_def text_message_def
        message_turn_def get_content_for_message_def or_empty_def sample_generation_def
        two_user_body_def py_opt_int_def)

lemma str_of_nat_digits: "str_of_nat 0 = ''0''" "str_of_nat (Suc 0) = ''1''"
  by (subst str_of_nat.simps, simp)+

lemma sample_batch:
  "create_batch_requests stub_collaborators ''m''
     [sample_conversation ''q'', two_user_messages] sample_config
   = Inr [batch_request ''request-0'' (sample_body ''q''),
          batch_request ''request-1'' two_user_body]"
  by (simp add: create_batch_requests_def sample_config_def sample_encodes two_user_encodes
        batch_request_def BATCH_ENDPOINT_def str_of_nat_digits)

text \<open>
  C2, as the code has it. For every list of conversations for which batch-job creation
  prepares its requests, there is one request for each conversation, in order; the
  request at position \<open>i\<close> has the custom identifier \<open>request-<i>\<close>, the method POST,
  the url \<open>/v1/chat/completions\<close> and, as body, the encoding of the conversation by
  \<open>_convert_conversation_to_api_input\<close>, the encoder of the online path: each message
  is a wire turn of its own, whose content is the one-element list of its content unit.
\<close>

theorem batch_requests_tagged_per_message_encoding:
  "create_batch_requests cs model convs cfg = Inr reqs \<Longrightarrow>
     length reqs = length convs \<and>
     (\<forall>i<length convs. \<exists>body turns.
         convert_conversation_to_api_input cs model (convs ! i) (generation cfg) = Inr body
       \<and> reqs ! i = PDict [(''custom_id'', PStr (''request-'' @ str_of_nat i)),
                           (''method'', PStr ''POST''),
                           (''url'', PStr ''/v1/chat/completions''),
                           (''body'', body)]
       \<and> py_getitem body ''messages'' = Inr (PList turns)
       \<and> length turns = length (messages (convs ! i))
       \<and> (\<forall>j<length turns. \<exists>c.
             get_content_for_message cs (messages (convs ! i) ! j) = Inr c
           \<and> turns ! j = PDict [(''content'', PList [c]),
                                (''role'', PStr (Role_value (role (messages (convs ! i) ! j))))]))"
proof -
  assume a: "create_batch_requests cs model convs cfg = Inr reqs"
  then have f: "batch_requests_from cs model (generation cfg) 0 convs = Inr reqs"
    by (simp add: create_batch_requests_def)
  note n = batch_requests_from_nth [OF f]
  show ?thesis
  proof (intro conjI allI impI)
    show "length reqs = length convs" using n by simp
  next
    fix i assume "i < length convs"
    with n obtain body where
      b: "convert_conversation_to_api_input cs model (convs ! i) (generation cfg) = Inr body"
      and r: "reqs ! i = PDict [(''custom_id'', PStr (''request-'' @ str_of_nat i)),
                           (''method'', PStr ''POST''),
                           (''url'', PStr ''/v1/chat/completions''),
                           (''body'', body)]"
      by auto
    from api_input_messages [OF b] obtain turns where
      t: "mapM (message_turn cs) (messages (convs ! i)) = Inr turns"
      and m: "py_getitem body ''messages'' = Inr (PList turns)" by blast
    note tn = mapM_Inr_nth [OF t]
    have "\<forall>j<length turns. \<exists>c.
             get_content_for_message cs (messages (convs ! i) ! j) = Inr c
           \<and> turns ! j = PDict [(''content'', PList [c]),
                                (''role'', PStr (Role_value (role (messages (convs ! i) ! j))))]"
      using tn message_turn_Inr by simp
    with b r m tn
    show "\<exists>body turns.
         convert_conversation_to_api_input cs model (convs ! i) (generation cfg) = Inr body
       \<and> reqs ! i = PDict [(''custom_id'', PStr (''request-'' @ str_of_nat i)),
                           (''method'', PStr ''POST''),
                           (''url'', PStr ''/v1/chat/completions''),
                           (''body'', body)]
       \<and> py_getitem body ''messages'' = Inr (PList turns)
       \<and> length turns = length (messages (convs ! i))
       \<and> (\<forall>j<length turns. \<exists>c.
             get_content_for_message cs (messages (convs ! i) ! j) = Inr c
           \<and> turns ! j = PDict [(''content'', PList [c]),
                                (''role'', PStr (Role_value (role (messages (convs ! i) ! j))))])"
      by blast
  qed
qed

theorem batch_requests_tagged_per_message_encoding_witness:
  "create_batch_requests stub_collaborators ''m''
     [sample_conversation ''q'', two_user_messages] sample_config
   = Inr [batch_request ''request-0'' (sample_body ''q''),
          batch_request ''request-1'' two_user_body]
   \<and> length [batch_request ''request-0'' (sample_body ''q''),
              batch_request ''request-1'' two_user_body]
     = length [sample_conversation ''q'', two_user_messages]"
  using batch_requests_tagged_per_message_encoding [OF sample_batch] sample_batch
  by blast

text \<open>
  C2 as stated fails: the body of a batch request is not the grouped encoding. For a
  conversation of two adjacent user messages the body has two wire turns, where the
  grouped encoding of the same messages has one.
\<close>

theorem batch_request_body_is_not_grouped:
  "create_batch_requests stub_collaborators ''m'' [two_user_messages] sample_config
     = Inr [batch_request ''request-0'' two_user_body]
   \<and> py_getitem two_user_body ''messages''
     = Inr (PList [PDict [(''content'', PList [PDict [(''type'', PStr ''text''), (''text'', PStr ''a'')]]),
                          (''role'', PStr ''user'')],
                   PDict [(''content'', PList [PDict [(''type'', PStr ''text''), (''text'', PStr ''b'')]]),
                          (''role'', PStr ''user'')]])
   \<and> get_list_of_message_json_dicts stub_collaborators (messages two_user_messages) True
     = Inr [PDict [(''role'', PStr ''user''),
                   (''content'', PList [PDict [(''type'', PStr ''text''), (''text'', PStr ''a'')],
                                        PDict [(''type'', PStr ''text''), (''text'', PStr ''b'')]])]]
   \<and> py_getitem two_user_body ''messages''
     \<noteq> (case get_list_of_message_json_dicts stub_collaborators
                (messages two_user_messages) True of
           Inl e \<Rightarrow> Inl e | Inr turns \<Rightarrow> Inr (PList turns))"
proof (intro conjI)
  show "create_batch_requests stub_collaborators ''m'' [two_user_messages] sample_config
     = Inr [batch_request ''request-0'' two_user_body]"
    by (simp add: create_batch_requests_def sample_config_def two_user_encodes
        batch_request_def BATCH_ENDPOINT_def str_of_nat_digits)
  show "py_getitem two_user_body ''messages''
     = Inr (PList [PDict [(''content'', PList [PDict [(''type'', PStr ''text''), (''text'', PStr ''a'')]]),
                          (''role'', PStr ''user'')],
                   PDict [(''content'', PList [PDict [(''type'', PStr ''text''), (''text'', PStr ''b'')]]),
                          (''role'', PStr ''user'')]])"
    by (simp add: two_user_body_def py_getitem_def)
  show "get_list_of_message_json_dicts stub_collaborators (messages two_user_messages) True
     = Inr [PDict [(''role'', PStr ''user''),
                   (''content'', PList [PDict [(''type'', PStr ''text''), (''text'', PStr ''a'')],
                                        PDict [(''type'', PStr ''text''), (''text'', PStr ''b'')]])]]"
    by (simp add: get_list_of_message_json_dicts_def message_dicts_loop_runs two_user_messages_def
          turn_of_run_def get_content_for_message_def text_message_def is_text_def or_empty_def)
  show "py_getitem two_user_body ''messages''
     \<noteq> (case get_list_of_message_json_dicts stub_collaborators
                (messages two_user_messages) True of
           Inl e \<Rightarrow> Inl e | Inr turns \<Rightarrow> Inr (PList turns))"
    by (simp add: get_list_of_message_json_dicts_def message_dicts_loop_runs two_user_messages_def
          turn_of_run_def get_content_for_message_def text_message_def is_text_def or_empty_def
          two_user_body_def py_getitem_def)
qed

section \<open>Batch results\<close>

lemma mapM_nth_Inr:
  "length ys = length xs \<Longrightarrow> (\<And>i. i < length xs \<Longrightarrow> f (xs ! i) = Inr (ys ! i))
     \<Longrightarrow> mapM f xs = Inr ys"
proof (induction xs arbitrary: ys)
  case Nil
  then show ?case by simp
next
  case (Cons x xs)
  from Cons.prems(1) obtain y ys' where ys: "ys = y # ys'" by (cases ys) auto
  with Cons.prems(1) have len: "length ys' = length xs" by simp
  from Cons.prems(2) [of 0] ys have y: "f x = Inr y" by simp
  have "\<And>i. i < length xs \<Longrightarrow> f (xs ! i) = Inr (ys' ! i)"
  proof -
    fix i assume "i < length xs"
    then have "Suc i < length (x # xs)" by simp
    from Cons.prems(2) [OF this] ys show "f (xs ! i) = Inr (ys' ! i)" by simp
  qed
  from Cons.IH [OF len this] y ys show ?case by simp
qed

lemma results_after_status:
  "get_batch_status w bid rp tr = (Inr st, tr1) \<Longrightarrow>
   get_batch_results_with_mapping cs w bid convs rp tr =
     (if status st \<noteq> COMPLETED then (Inl (BatchNotCompleted (status st)), tr1)
      else if failed_requests st > 0 \<and> truthy_opt (error_file_id st) then
        (case download_file w (or_empty (error_file_id st)) rp tr1 of
           (Inl e, tr2) \<Rightarrow> (Inl e, tr2)
         | (Inr error_content, tr2) \<Rightarrow> (Inl (BatchHasFailedRequests error_content), tr2))
      else if \<not> truthy_opt (output_file_id st) then (Inl NoOutputFile, tr1)
      else
        (case download_file w (or_empty (output_file_id st)) rp tr1 of
           (Inl e, tr2) \<Rightarrow> (Inl e, tr2)
         | (Inr results_content, tr2) \<Rightarrow>
             (mapM (process_result_line cs)
                (zip (splitlines results_content) convs), tr2)))"
  by (simp add: get_batch_results_with_mapping_def)

lemma results_after_download:
  assumes "get_batch_status w bid rp tr = (Inr st, tr1)"
    and "status st = COMPLETED"
    and "\<not> (failed_requests st > 0 \<and> truthy_opt (error_file_id st))"
    and "output_file_id st = Some fid" and "fid \<noteq> []"
    and "download_file w fid rp tr1 = (Inr doc, tr2)"
  shows "get_batch_results_with_mapping cs w bid convs rp tr
           = (mapM (process_result_line cs) (zip (splitlines doc) convs), tr2)"
proof -
  from assms(4,5) have o: "truthy_opt (output_file_id st)" "or_empty (output_file_id st) = fid"
    by (simp_all add: truthy_opt_def or_empty_def)
  show ?thesis
    unfolding results_after_status [OF assms(1)]
    using assms(2,3,6) o by auto
qed

lemma process_result_line_ok:
  assumes "json_loads cs line = Inr (PDict obj)" and "map_of obj ''error'' = None"
    and "map_of obj ''response'' = Some resp" and "py_getitem resp ''body'' = Inr body"
  shows "process_result_line cs (line, conv) = convert_api_output_to_conversation body conv"
  using assms by (simp add: process_result_line_def py_get_def py_getitem_def)

lemma results_positional:
  assumes st: "get_batch_status w bid rp tr = (Inr st, tr1)"
    "status st = COMPLETED"
    "\<not> (failed_requests st > 0 \<and> truthy_opt (error_file_id st))"
    "output_file_id st = Some fid" "fid \<noteq> []"
    "download_file w fid rp tr1 = (Inr doc, tr2)"
    and len: "length rs = min (length (splitlines doc)) (length convs)"
    and lines: "\<And>i. i < min (length (splitlines doc)) (length convs) \<Longrightarrow>
        \<exists>obj resp body.
            json_loads cs (splitlines doc ! i) = Inr (PDict obj)
          \<and> map_of obj ''error'' = None
          \<and> map_of obj ''response'' = Some resp
          \<and> py_getitem resp ''body'' = Inr body
          \<and> convert_api_output_to_conversation body (convs ! i) = Inr (rs ! i)"
  shows "get_batch_results_with_mapping cs w bid convs rp tr = (Inr rs, tr2)"
proof -
  let ?z = "zip (splitlines doc) convs"
  have l: "length rs = length ?z" using len by simp
  have "\<And>i. i < length ?z \<Longrightarrow> process_result_line cs (?z ! i) = Inr (rs ! i)"
  proof -
    fix i assume i: "i < length ?z"
    then have i': "i < min (length (splitlines doc)) (length convs)" by simp
    from lines [OF i'] obtain obj resp body where
      "json_loads cs (splitlines doc ! i) = Inr (PDict obj)"
      "map_of obj ''error'' = None" "map_of obj ''response'' = Some resp"
      "py_getitem resp ''body'' = Inr body"
      and c: "convert_api_output_to_conversation body (convs ! i) = Inr (rs ! i)"
      by blast
    then have "process_result_line cs (splitlines doc ! i, convs ! i) = Inr (rs ! i)"
      by (simp add: process_result_line_ok)
    with i show "process_result_line cs (?z ! i) = Inr (rs ! i)" by simp
  qed
  from mapM_nth_Inr [OF l this] have "mapM (process_result_line cs) ?z = Inr rs" .
  with results_after_download [OF st] show ?thesis by simp
qed

lemma as_opt_str_py_opt_str: "as_opt_str (py_opt_str x) = Inr x" "as_opt_str PNone = Inr None"
  by (cases x) (simp_all add: as_opt_str_def py_opt_str_def)

lemma sample_payload_completed:
  "batch_status_of_payload ''b1'' (status_payload ''completed'' n out errf)
     = Inr \<lparr>batch_id = ''b1'', status = COMPLETED, total_requests = 3,
            completed_requests = 3 - n, failed_requests = n, error = None,
            output_file_id = out, error_file_id = errf\<rparr>"
  by (simp add: batch_status_of_payload_def status_payload_def py_getitem_def py_get_def
        BatchStatus_ctor_def request_count_def optional_field_def as_int_def
        as_opt_str_py_opt_str)

lemma sample_payload_in_progress:
  "batch_status_of_payload ''b1'' (status_payload ''in_progress'' n out errf)
     = Inr \<lparr>batch_id = ''b1'', status = IN_PROGRESS, total_requests = 3,
            completed_requests = 3 - n, failed_requests = n, error = None,
            output_file_id = out, error_file_id = errf\<rparr>"
  by (simp add: batch_status_of_payload_def status_payload_def py_getitem_def py_get_def
        BatchStatus_ctor_def request_count_def optional_field_def as_int_def
        as_opt_str_py_opt_str)

lemma sample_get_batch_status:
  "get_batch_status (sample_world payload doc pj) ''b1'' sample_remote []
     = (batch_status_of_payload ''b1'' payload, [status_request])"
  by (simp add: get_batch_status_def Let_def sample_world_def sample_server_def sample_headers
        status_request_def sample_headers_list_def)
    (simp add: sample_remote_def str_opt_def)

lemma sample_download_file:
  "download_file (sample_world payload doc pj) fid sample_remote tr
     = (Inr doc, tr @ [file_request fid])"
  by (simp add: download_file_def Let_def sample_world_def sample_server_def sample_headers
        file_request_def sample_headers_list_def)
    (simp add: sample_remote_def str_opt_def)

lemma splitlines_three: "splitlines three_lines = [''line0'', ''line1'', ''line2'']"
  by (simp add: splitlines_def three_lines_def is_line_boundary_def)


lemma sample_line_ok:
  "line = ''line0'' \<and> a = ''zero'' \<or> line = ''line1'' \<and> a = ''one'' \<or> line = ''line2'' \<and> a = ''two''
   \<Longrightarrow> \<exists>obj resp body.
          json_loads stub_collaborators line = Inr (PDict obj)
        \<and> map_of obj ''error'' = None
        \<and> map_of obj ''response'' = Some resp
        \<and> py_getitem resp ''body'' = Inr body
        \<and> convert_api_output_to_conversation body (sample_conversation q) = Inr (answered q a)"
  by (elim disjE conjE)
    (simp_all add: stub_collaborators_def sample_loads_def result_line_def completion_def
       py_getitem_def py_getitem0_def convert_api_output_to_conversation_def Role_ctor_def
       Role_of_def Message_ctor_def sample_conversation_def answered_def text_message_def)

lemma sample_process_result_line:
  "process_result_line stub_collaborators (''line0'', sample_conversation q) = Inr (answered q ''zero'')"
  "process_result_line stub_collaborators (''line1'', sample_conversation q) = Inr (answered q ''one'')"
  "process_result_line stub_collaborators (''line2'', sample_conversation q) = Inr (answered q ''two'')"
  by (simp_all add: process_result_line_def py_get_def
       stub_collaborators_def sample_loads_def result_line_def completion_def
       py_getitem_def py_getitem0_def convert_api_output_to_conversation_def Role_ctor_def
       Role_of_def Message_ctor_def sample_conversation_def answered_def text_message_def)

lemma sample_status_completed:
  "get_batch_status (sample_world (status_payload ''completed'' n out errf) doc pj) ''b1''
     sample_remote []
   = (Inr \<lparr>batch_id = ''b1'', status = COMPLETED, total_requests = 3,
            completed_requests = 3 - n, failed_requests = n, error = None,
            output_file_id = out, error_file_id = errf\<rparr>, [status_request])"
  by (simp add: sample_get_batch_status sample_payload_completed)

lemma sample_status_in_progress:
  "get_batch_status (sample_world (status_payload ''in_progress'' n out errf) doc pj) ''b1''
     sample_remote []
   = (Inr \<lparr>batch_id = ''b1'', status = IN_PROGRESS, total_requests = 3,
            completed_requests = 3 - n, failed_requests = n, error = None,
            output_file_id = out, error_file_id = errf\<rparr>, [status_request])"
  by (simp add: sample_get_batch_status sample_payload_in_progress)

text \<open>
  C1. Result remapping is positional. For a completed batch without a failure to
  report, whose output document has as many lines as there are original conversations,
  each line a JSON object without an error field whose response body decodes against the
  conversation at the same position: \<open>getResults\<close> returns exactly these decoded
  conversations, one for each original and in the same order.
\<close>

theorem batch_results_are_positional:
  "get_batch_status w bid rp tr = (Inr st, tr1)
   \<and> status st = COMPLETED
   \<and> \<not> (failed_requests st > 0 \<and> truthy_opt (error_file_id st))
   \<and> output_file_id st = Some fid \<and> fid \<noteq> []
   \<and> download_file w fid rp tr1 = (Inr doc, tr2)
   \<and> length (splitlines doc) = length convs
   \<and> length rs = length convs
   \<and> (\<forall>i<length convs. \<exists>obj resp body.
            json_loads cs (splitlines doc ! i) = Inr (PDict obj)
          \<and> map_of obj ''error'' = None
          \<and> map_of obj ''response'' = Some resp
          \<and> py_getitem resp ''body'' = Inr body
          \<and> convert_api_output_to_conversation body (convs ! i) = Inr (rs ! i))
   \<Longrightarrow> get_batch_results_with_mapping cs w bid convs rp tr = (Inr rs, tr2)"
  by (rule results_positional [where st = st and fid = fid and doc = doc and ?tr1.0 = tr1])
    simp_all

theorem batch_results_are_positional_witness:
  "get_batch_results_with_mapping stub_collaborators
     (sample_world (status_payload ''completed'' 0 (Some ''out'') None) three_lines
        (Inl JSONDecodeError))
     ''b1'' [sample_conversation ''a'', sample_conversation ''b'', sample_conversation ''c'']
     sample_remote []
   = (Inr [answered ''a'' ''zero'', answered ''b'' ''one'', answered ''c'' ''two''],
      [status_request, file_request ''out''])"
proof -
  let ?w = "sample_world (status_payload ''completed'' 0 (Some ''out'') None) three_lines
              (Inl JSONDecodeError)"
  let ?convs = "[sample_conversation ''a'', sample_conversation ''b'', sample_conversation ''c'']"
  let ?rs = "[answered ''a'' ''zero'', answered ''b'' ''one'', answered ''c'' ''two'']"
  let ?st = "\<lparr>batch_id = ''b1'', status = COMPLETED, total_requests = 3,
            completed_requests = 3 - 0, failed_requests = 0, error = None,
            output_file_id = Some ''out'', error_file_id = None\<rparr>"
  have lines: "\<forall>i<length ?convs. \<exists>obj resp body.
            json_loads stub_collaborators (splitlines three_lines ! i) = Inr (PDict obj)
          \<and> map_of obj ''error'' = None
          \<and> map_of obj ''response'' = Some resp
          \<and> py_getitem resp ''body'' = Inr body
          \<and> convert_api_output_to_conversation body (?convs ! i) = Inr (?rs ! i)"
  proof (intro allI impI)
    fix i assume "i < length ?convs"
    then have "i = 0 \<or> i = 1 \<or> i = 2" by (simp; arith)
    then show "\<exists>obj resp body.
            json_loads stub_collaborators (splitlines three_lines ! i) = Inr (PDict obj)
          \<and> map_of obj ''error'' = None
          \<and> map_of obj ''response'' = Some resp
          \<and> py_getitem resp ''body'' = Inr body
          \<and> convert_api_output_to_conversation body (?convs ! i) = Inr (?rs ! i)"
      using sample_line_ok [of "''line0''" "''zero''" "''a''"]
        sample_line_ok [of "''line1''" "''one''" "''b''"]
        sample_line_ok [of "''line2''" "''two''" "''c''"]
      by (elim disjE) (simp_all add: splitlines_three)
  qed
  have p: "get_batch_status ?w ''b1'' sample_remote [] = (Inr ?st, [status_request])
   \<and> status ?st = COMPLETED
   \<and> \<not> (failed_requests ?st > 0 \<and> truthy_opt (error_file_id ?st))
   \<and> output_file_id ?st = Some ''out'' \<and> ''out'' \<noteq> []
   \<and> download_file ?w ''out'' sample_remote [status_request]
       = (Inr three_lines, [status_request, file_request ''out''])
   \<and> length (splitlines three_lines) = length ?convs
   \<and> length ?rs = length ?convs
   \<and> (\<forall>i<length ?convs. \<exists>obj resp body.
            json_loads stub_collaborators (splitlines three_lines ! i) = Inr (PDict obj)
          \<and> map_of obj ''error'' = None
          \<and> map_of obj ''response'' = Some resp
          \<and> py_getitem resp ''body'' = Inr body
          \<and> convert_api_output_to_conversation body (?convs ! i) = Inr (?rs ! i))"
    using lines
    by (simp add: sample_status_completed sample_download_file splitlines_three truthy_opt_def)
  from batch_results_are_positional [OF p] show ?thesis .
qed



text \<open>
  C4. With the status that \<open>getResults\<close> fetches first: if it is not \<open>completed\<close>,
  \<open>getResults\<close> raises (not completed); if it is completed with failed requests and an
  error-file id, \<open>getResults\<close> downloads the error file and raises in any case, with the
  content of the file when the download succeeds; and if it is completed without an
  output-file id, \<open>getResults\<close> raises in any case, with the no-output-file error
  unless the failure above is raised first.
\<close>

theorem get_results_requires_ready_successful_batch:
  "get_batch_status w bid rp tr = (Inr st, tr1) \<Longrightarrow>
     (status st \<noteq> COMPLETED \<longrightarrow>
        get_batch_results_with_mapping cs w bid convs rp tr
          = (Inl (BatchNotCompleted (status st)), tr1))
   \<and> (status st = COMPLETED \<and> failed_requests st > 0
        \<and> error_file_id st = Some efid \<and> efid \<noteq> [] \<longrightarrow>
        (\<exists>e tr2. get_batch_results_with_mapping cs w bid convs rp tr = (Inl e, tr2))
      \<and> (\<forall>doc tr2. download_file w efid rp tr1 = (Inr doc, tr2) \<longrightarrow>
             get_batch_results_with_mapping cs w bid convs rp tr
               = (Inl (BatchHasFailedRequests doc), tr2)))
   \<and> (status st = COMPLETED \<and> \<not> truthy_opt (output_file_id st) \<longrightarrow>
        (\<exists>e tr2. get_batch_results_with_mapping cs w bid convs rp tr = (Inl e, tr2))
      \<and> (\<not> (failed_requests st > 0 \<and> truthy_opt (error_file_id st)) \<longrightarrow>
             get_batch_results_with_mapping cs w bid convs rp tr = (Inl NoOutputFile, tr1)))"
proof -
  assume a: "get_batch_status w bid rp tr = (Inr st, tr1)"
  note r = results_after_status [OF a, of cs convs]
  have not_ready: "status st \<noteq> COMPLETED \<longrightarrow>
        get_batch_results_with_mapping cs w bid convs rp tr
          = (Inl (BatchNotCompleted (status st)), tr1)"
    by (simp add: r)
  have failed: "status st = COMPLETED \<and> failed_requests st > 0
        \<and> error_file_id st = Some efid \<and> efid \<noteq> [] \<longrightarrow>
        (\<exists>e tr2. get_batch_results_with_mapping cs w bid convs rp tr = (Inl e, tr2))
      \<and> (\<forall>doc tr2. download_file w efid rp tr1 = (Inr doc, tr2) \<longrightarrow>
             get_batch_results_with_mapping cs w bid convs rp tr
               = (Inl (BatchHasFailedRequests doc), tr2))"
  proof (intro impI, elim conjE)
    assume h: "status st = COMPLETED" "failed_requests st > 0"
      "error_file_id st = Some efid" "efid \<noteq> []"
    then have e: "truthy_opt (error_file_id st)" "or_empty (error_file_id st) = efid"
      by (simp_all add: truthy_opt_def or_empty_def)
    have eq: "get_batch_results_with_mapping cs w bid convs rp tr
        = (case download_file w efid rp tr1 of
             (Inl e, tr2) \<Rightarrow> (Inl e, tr2)
           | (Inr error_content, tr2) \<Rightarrow> (Inl (BatchHasFailedRequests error_content), tr2))"
      using h(1,2) e by (simp add: r)
    show "(\<exists>e tr2. get_batch_results_with_mapping cs w bid convs rp tr = (Inl e, tr2))
      \<and> (\<forall>doc tr2. download_file w efid rp tr1 = (Inr doc, tr2) \<longrightarrow>
             get_batch_results_with_mapping cs w bid convs rp tr
               = (Inl (BatchHasFailedRequests doc), tr2))"
      unfolding eq by (cases "download_file w efid rp tr1") (auto split: sum.splits)
  qed
  have no_output: "status st = COMPLETED \<and> \<not> truthy_opt (output_file_id st) \<longrightarrow>
        (\<exists>e tr2. get_batch_results_with_mapping cs w bid convs rp tr = (Inl e, tr2))
      \<and> (\<not> (failed_requests st > 0 \<and> truthy_opt (error_file_id st)) \<longrightarrow>
             get_batch_results_with_mapping cs w bid convs rp tr = (Inl NoOutputFile, tr1))"
  proof (intro impI, elim conjE)
    assume h: "status st = COMPLETED" "\<not> truthy_opt (output_file_id st)"
    show "(\<exists>e tr2. get_batch_results_with_mapping cs w bid convs rp tr = (Inl e, tr2))
      \<and> (\<not> (failed_requests st > 0 \<and> truthy_opt (error_file_id st)) \<longrightarrow>
             get_batch_results_with_mapping cs w bid convs rp tr = (Inl NoOutputFile, tr1))"
    proof (cases "failed_requests st > 0 \<and> truthy_opt (error_file_id st)")
      case True
      with h have "get_batch_results_with_mapping cs w bid convs rp tr
        = (case download_file w (or_empty (error_file_id st)) rp tr1 of
             (Inl e, tr2) \<Rightarrow> (Inl e, tr2)
           | (Inr error_content, tr2) \<Rightarrow> (Inl (BatchHasFailedRequests error_content), tr2))"
        by (simp add: r)
      then have "\<exists>e tr2. get_batch_results_with_mapping cs w bid convs rp tr = (Inl e, tr2)"
        by (cases "download_file w (or_empty (error_file_id st)) rp tr1")
          (auto split: sum.splits)
      with True show ?thesis by blast
    next
      case False
      with h have "get_batch_results_with_mapping cs w bid convs rp tr = (Inl NoOutputFile, tr1)"
        unfolding r by auto
      then show ?thesis by simp
    qed
  qed
  from not_ready failed no_output show ?thesis by (intro conjI)
qed

theorem get_results_requires_ready_successful_batch_witness:
  "get_batch_results_with_mapping stub_collaborators
     (sample_world (status_payload ''in_progress'' 0 None None) [] (Inl JSONDecodeError))
     ''b1'' [sample_conversation ''a''] sample_remote []
     = (Inl (BatchNotCompleted IN_PROGRESS), [status_request])
   \<and> get_batch_results_with_mapping stub_collaborators
     (sample_world (status_payload ''completed'' 1 (Some ''out'') (Some ''err'')) ''boom''
        (Inl JSONDecodeError))
     ''b1'' [sample_conversation ''a''] sample_remote []
     = (Inl (BatchHasFailedRequests ''boom''), [status_request, file_request ''err''])
   \<and> get_batch_results_with_mapping stub_collaborators
     (sample_world (status_payload ''completed'' 0 None None) [] (Inl JSONDecodeError))
     ''b1'' [sample_conversation ''a''] sample_remote []
     = (Inl NoOutputFile, [status_request])"
  using get_results_requires_ready_successful_batch
          [OF sample_status_in_progress [of 0 None None "[]" "Inl JSONDecodeError"],
           of stub_collaborators "[sample_conversation ''a'']" "''x''"]
        get_results_requires_ready_successful_batch
          [OF sample_status_completed [of 1 "Some ''out''" "Some ''err''" "''boom''" "Inl JSONDecodeError"],
           of stub_collaborators "[sample_conversation ''a'']" "''err''"]
        get_results_requires_ready_successful_batch
          [OF sample_status_completed [of 0 None None "[]" "Inl JSONDecodeError"],
           of stub_collaborators "[sample_conversation ''a'']" "''x''"]
  by (simp add: sample_download_file truthy_opt_def)

text \<open>
  C10. If the status of a completed batch reports failed requests but no error-file
  id, \<open>getResults\<close> does not raise for them: it downloads the output file and decodes
  it line by line, with the same outcome as for a status that reports no failed request.
\<close>

theorem failed_requests_without_error_file_are_ignored:
  "get_batch_status w bid rp tr = (Inr st, tr1)
   \<and> status st = COMPLETED
   \<and> failed_requests st > 0 \<and> \<not> truthy_opt (error_file_id st)
   \<and> output_file_id st = Some fid \<and> fid \<noteq> []
   \<and> download_file w fid rp tr1 = (Inr doc, tr2)
   \<Longrightarrow> get_batch_results_with_mapping cs w bid convs rp tr
         = (mapM (process_result_line cs) (zip (splitlines doc) convs), tr2)
     \<and> (\<forall>w'. get_batch_status w' bid rp tr = (Inr (st\<lparr>failed_requests := 0\<rparr>), tr1)
             \<and> download_file w' fid rp tr1 = (Inr doc, tr2) \<longrightarrow>
           get_batch_results_with_mapping cs w' bid convs rp tr
             = get_batch_results_with_mapping cs w bid convs rp tr)"
proof -
  assume a: "get_batch_status w bid rp tr = (Inr st, tr1)
   \<and> status st = COMPLETED
   \<and> failed_requests st > 0 \<and> \<not> truthy_opt (error_file_id st)
   \<and> output_file_id st = Some fid \<and> fid \<noteq> []
   \<and> download_file w fid rp tr1 = (Inr doc, tr2)"
  have m: "get_batch_results_with_mapping cs w bid convs rp tr
         = (mapM (process_result_line cs) (zip (splitlines doc) convs), tr2)"
    using a by (intro results_after_download [where st = st and fid = fid and ?tr1.0 = tr1]) simp_all
  have "\<forall>w'. get_batch_status w' bid rp tr = (Inr (st\<lparr>failed_requests := 0\<rparr>), tr1)
             \<and> download_file w' fid rp tr1 = (Inr doc, tr2) \<longrightarrow>
           get_batch_results_with_mapping cs w' bid convs rp tr
             = (mapM (process_result_line cs) (zip (splitlines doc) convs), tr2)"
  proof (intro allI impI, elim conjE)
    fix w'
    assume "get_batch_status w' bid rp tr = (Inr (st\<lparr>failed_requests := 0\<rparr>), tr1)"
      "download_file w' fid rp tr1 = (Inr doc, tr2)"
    with a show "get_batch_results_with_mapping cs w' bid convs rp tr
             = (mapM (process_result_line cs) (zip (splitlines doc) convs), tr2)"
      by (intro results_after_download
            [where st = "st\<lparr>failed_requests := 0\<rparr>" and fid = fid and ?tr1.0 = tr1]) simp_all
  qed
  with m show ?thesis by simp
qed

theorem failed_requests_without_error_file_are_ignored_witness:
  "get_batch_results_with_mapping stub_collaborators
     (sample_world (status_payload ''completed'' 1 (Some ''out'') None) three_lines
        (Inl JSONDecodeError))
     ''b1'' [sample_conversation ''a'', sample_conversation ''b'', sample_conversation ''c'']
     sample_remote []
   = (Inr [answered ''a'' ''zero'', answered ''b'' ''one'', answered ''c'' ''two''],
      [status_request, file_request ''out''])"
proof -
  let ?w = "sample_world (status_payload ''completed'' 1 (Some ''out'') None) three_lines
              (Inl JSONDecodeError)"
  let ?st = "\<lparr>batch_id = ''b1'', status = COMPLETED, total_requests = 3,
            completed_requests = 3 - 1, failed_requests = 1, error = None,
            output_file_id = Some ''out'', error_file_id = None\<rparr>"
  have p: "get_batch_status ?w ''b1'' sample_remote [] = (Inr ?st, [status_request])
   \<and> status ?st = COMPLETED
   \<and> failed_requests ?st > 0 \<and> \<not> truthy_opt (error_file_id ?st)
   \<and> output_file_id ?st = Some ''out'' \<and> ''out'' \<noteq> []
   \<and> download_file ?w ''out'' sample_remote [status_request]
       = (Inr three_lines, [status_request, file_request ''out''])"
    by (simp add: sample_status_completed sample_download_file truthy_opt_def)
  from failed_requests_without_error_file_are_ignored [OF p, THEN conjunct1]
  show ?thesis
    by (simp add: splitlines_three sample_process_result_line)
qed

end
